theory Spec2Isabelle
  imports Complex_Main "HOL-Library.Sublist"
begin

section \<open>Strings\<close>

text \<open>
  JavaScript strings are modelled as \<^typ>\<open>string\<close>. The messages of the script that contain
  letters outside ASCII are written with the Latin-1 code of the letter (\<open>CHR 0xE7\<close> for the
  c with cedilla, and so on), one \<^typ>\<open>char\<close> per UTF-16 code unit of the source.
\<close>

definition startsWith :: "string \<Rightarrow> string \<Rightarrow> bool" where
  "startsWith s p = (take (length p) s = p)"

definition endsWith :: "string \<Rightarrow> string \<Rightarrow> bool" where
  "endsWith s p = (length p \<le> length s \<and> drop (length s - length p) s = p)"

section \<open>Form controls and \<open>FormHandler.serializeForm\<close>\<close>

text \<open>
  A form control: the properties that the script reads (\<open>id\<close>, \<open>name\<close>, \<open>type\<close>,
  \<open>disabled\<close>, \<open>checked\<close>, \<open>value\<close>) and the two defaults that \<open>form.reset()\<close> restores.
  The value of a control is a string; \<open>fieldset\<close> and \<open>object\<close> elements, which have no
  \<open>value\<close>, are not modelled. Two flags place the control with respect to a form:
  \<open>el_owned\<close> holds when the form is the form owner of the control, so that
  \<open>form.elements\<close> lists it and \<open>form.reset()\<close> resets it; \<open>el_inside\<close> holds when the control
  is a descendant of the form element, so that \<open>form.querySelector\<close> and
  \<open>form.querySelectorAll\<close> see it. A control outside the form with a \<open>form=\<close> attribute
  that names it is owned and not inside; a control inside the form whose \<open>form=\<close> attribute
  names another form is inside and not owned.
\<close>

record element =
  el_id :: string
  el_name :: string
  el_type :: string
  el_disabled :: bool
  el_checked :: bool
  el_value :: string
  el_defaultChecked :: bool
  el_defaultValue :: string
  el_owned :: bool
  el_inside :: bool

text \<open>
  A value of the serialized object: a string, or an array of strings. The object \<open>data\<close>
  is a finite map from property names to values; a name that is not bound reads as
  \<open>undefined\<close>. Only own properties are modelled: the properties that the literal \<open>{}\<close>
  inherits from \<open>Object.prototype\<close> (\<open>constructor\<close>, \<open>toString\<close>, \<open>__proto__\<close>, ...) are
  not, so a control carrying one of those names is outside this model.
\<close>

datatype fvalue = Scalar string | Seq "string list"

type_synonym form_data = "string \<rightharpoonup> fvalue"

text \<open>JavaScript truthiness of \<open>data[name]\<close>: \<open>undefined\<close> and the empty string are falsy,
  every array (the empty one too) is truthy.\<close>

fun truthy :: "fvalue option \<Rightarrow> bool" where
  "truthy None = False"
| "truthy (Some (Scalar s)) = (s \<noteq> [])"
| "truthy (Some (Seq xs)) = True"

text \<open>The array that \<open>data[name]\<close> is after \<open>if (!Array.isArray(x)) x = [x]\<close>: a string is
  wrapped, an array is kept. (The statement runs only for a truthy \<open>data[name]\<close>, so the
  case of \<open>undefined\<close> does not arise.)\<close>

fun to_array :: "fvalue option \<Rightarrow> string list" where
  "to_array None = []"
| "to_array (Some (Scalar s)) = [s]"
| "to_array (Some (Seq xs)) = xs"

text \<open>
  The body of the \<open>forEach\<close> callback of \<open>serializeForm\<close>, for one control. In the branch
  of an unchecked checkbox, \<open>data[name] || []\<close> is evaluated where \<open>data[name]\<close> is falsy,
  so it is the empty array.
\<close>

definition serializeElement :: "form_data \<Rightarrow> element \<Rightarrow> form_data" where
  "serializeElement data element =
     (let name = el_name element; v = el_value element
      in
      if name \<noteq> [] \<and> \<not> el_disabled element \<and> el_type element \<in> set [''checkbox'', ''radio''] then
        (if el_checked element then
           (if truthy (data name) then data(name \<mapsto> Seq (to_array (data name) @ [v]))
            else if endsWith name ''[]'' then data(name \<mapsto> Seq [v])
            else data(name \<mapsto> Scalar v))
         else if el_type element = ''checkbox'' \<and> \<not> truthy (data name) then
           (if endsWith name ''[]'' then data(name \<mapsto> Seq []) else data)
         else data)
      else if name \<noteq> [] \<and> \<not> el_disabled element \<and> el_type element \<noteq> ''file''
              \<and> el_type element \<noteq> ''reset'' \<and> el_type element \<noteq> ''submit''
              \<and> el_type element \<noteq> ''button'' then
        data(name \<mapsto> Scalar v)
      else data)"

text \<open>\<open>serializeForm\<close>, as a function of \<open>form.elements\<close>.\<close>

definition serializeForm :: "element list \<Rightarrow> form_data" where
  "serializeForm elements = foldl serializeElement Map.empty elements"

text \<open>Two conditions on the enabled controls that carry a given name, used to state
  properties of the fold.\<close>

definition unchecked_group :: "string \<Rightarrow> element list \<Rightarrow> bool" where
  "unchecked_group n es = (\<forall>e \<in> set es. el_name e = n \<and> \<not> el_disabled e \<longrightarrow>
      el_type e \<in> set [''checkbox'', ''radio''] \<and> \<not> el_checked e)"

definition boxes_only :: "string \<Rightarrow> element list \<Rightarrow> bool" where
  "boxes_only n es = (\<forall>e \<in> set es. el_name e = n \<and> \<not> el_disabled e \<longrightarrow>
      el_type e \<in> set [''checkbox'', ''radio''])"

text \<open>An \<open>input\<close> control inside its form, as the markup declares it: its state is its
  default state. \<open>tied_input\<close> is the same control placed outside the form and tied to it
  by a \<open>form=\<close> attribute.\<close>

definition html_input :: "string \<Rightarrow> string \<Rightarrow> string \<Rightarrow> bool \<Rightarrow> bool \<Rightarrow> element" where
  "html_input ty n v c d =
     \<lparr>el_id = [], el_name = n, el_type = ty, el_disabled = d, el_checked = c, el_value = v,
      el_defaultChecked = c, el_defaultValue = v, el_owned = True, el_inside = True\<rparr>"

definition tied_input :: "string \<Rightarrow> string \<Rightarrow> string \<Rightarrow> bool \<Rightarrow> bool \<Rightarrow> element" where
  "tied_input ty n v c d = (html_input ty n v c d)\<lparr>el_inside := False\<rparr>"

section \<open>The mock gateway \<open>Utils.fetchData\<close>\<close>

text \<open>
  An exception value. The string of an \<open>Error\<close> is its \<open>message\<close>; the string of a
  \<open>TypeError\<close> names the expression at which the engine raised it (the engine's own
  wording of the message is not modelled; the script never reads it).
\<close>

datatype js_error = Error string | TypeError string

fun err_message :: "js_error \<Rightarrow> string" where
  "err_message (Error m) = m"
| "err_message (TypeError m) = m"

text \<open>
  The options object of a call. \<open>body\<close> is the JSON text that \<open>JSON.stringify\<close> produced
  from a serialized form; it is represented by the object it encodes, which is what
  \<open>JSON.parse\<close> gives back to the two log lines of the gateway. \<open>fetchData\<close> is local to
  the application closure and every call site that passes a body builds it this way.
\<close>

record filters =
  f_region :: "string option"
  f_type :: "string option"

record options =
  op_method :: "string option"
  op_headers :: "(string \<times> string) list"
  op_body :: "form_data option"
  op_params :: "filters option"

record map_point =
  mp_id :: string
  mp_lat :: real
  mp_lng :: real
  mp_value :: real
  mp_label :: string
  mp_severity :: string

record alert =
  al_id :: string
  al_region :: string
  al_level :: string
  al_message :: string
  al_timestamp :: int

record dashboard =
  db_globalHungerIndex :: real
  db_peopleAffected :: int
  db_fundingGap :: real
  db_fundingProgress :: int
  db_activeProjects :: int
  db_lastUpdated :: int
  db_mapData :: "map_point list"
  db_alerts :: "alert list"

record project =
  pj_id :: string
  pj_title :: string
  pj_region :: string
  pj_type :: string
  pj_description :: string
  pj_fundingProgress :: int
  pj_fundingGoal :: int
  pj_image :: string

datatype payload = DashboardData dashboard | ProjectList "project list"

record response =
  rs_success :: bool
  rs_message :: "string option"
  rs_data :: "payload option"

text \<open>
  What the gateway reads from its environment: the successive results of \<open>Math.random()\<close>
  (the first one sets the delay, the next five vary the dashboard figures) and the
  successive readings of the clock in milliseconds (\<open>toISOString\<close> is not applied: a
  timestamp stays a number of milliseconds). Numbers are real numbers, not doubles. The
  delay itself is not modelled: the timer always fires, so the promise always settles.
\<close>

record env =
  random :: "nat \<Rightarrow> real"
  clock :: "nat \<Rightarrow> int"

definition mapData :: "map_point list" where
  "mapData =
    [\<lparr>mp_id = ''AFR-SAH'', mp_lat = 15, mp_lng = 0, mp_value = 38.5, mp_label = ''Sahel'',
      mp_severity = ''critical''\<rparr>,
     \<lparr>mp_id = ''ASIA-SE'', mp_lat = 10, mp_lng = 110, mp_value = 15.1,
      mp_label = (''Sudeste Asi'' @ [CHR 0xE1] @ ''tico''), mp_severity = ''moderate''\<rparr>,
     \<lparr>mp_id = ''LATAM-CA'', mp_lat = 15, mp_lng = - 90, mp_value = 22.0,
      mp_label = (''Am'' @ [CHR 0xE9] @ ''rica Central''), mp_severity = ''high''\<rparr>,
     \<lparr>mp_id = ''MENA'', mp_lat = 25, mp_lng = 30, mp_value = 28.9,
      mp_label = (''Oriente M'' @ [CHR 0xE9] @ ''dio/N. '' @ [CHR 0xC1] @ ''frica''), mp_severity = ''high''\<rparr>]"

definition alerts :: "env \<Rightarrow> alert list" where
  "alerts e =
    [\<lparr>al_id = ''ALERT001'', al_region = ''Sahel'', al_level = ''critical'',
      al_message = ''Seca severa impacta colheitas. Necessidade imediata de ajuda.'',
      al_timestamp = clock e 1 - 2 * 86400000\<rparr>,
     \<lparr>al_id = ''ALERT002'', al_region = (''I'' @ [CHR 0xEA] @ ''men''), al_level = ''high'',
      al_message = (''Acesso humanit'' @ [CHR 0xE1] @ ''rio restrito. Volunt'' @ [CHR 0xE1] @ ''rios de log'' @ [CHR 0xED] @ ''stica necess'' @ [CHR 0xE1] @ ''rios.''),
      al_timestamp = clock e 2 - 3 * 86400000\<rparr>,
     \<lparr>al_id = ''ALERT003'', al_region = (''Chifre da '' @ [CHR 0xC1] @ ''frica''), al_level = ''critical'',
      al_message = ''Surto de Gafanhotos. Risco iminente.'',
      al_timestamp = clock e 3 - 1 * 86400000\<rparr>,
     \<lparr>al_id = ''ALERT004'', al_region = (''Am'' @ [CHR 0xE9] @ ''rica Central''), al_level = ''medium'',
      al_message = (''Impacto p'' @ [CHR 0xF3] @ ''s-furac'' @ [CHR 0xE3] @ ''o. Necessidade de sementes.''),
      al_timestamp = clock e 4 - 7 * 86400000\<rparr>]"

definition allProjects :: "project list" where
  "allProjects =
    [\<lparr>pj_id = ''PROJAFR05'', pj_title = (''Controle de Gafanhotos no Chifre da '' @ [CHR 0xC1] @ ''frica''),
      pj_region = ''AFR-SAH'', pj_type = ''agriculture_support'',
      pj_description = ''Apoio a comunidades locais com monitoramento...'',
      pj_fundingProgress = 75, pj_fundingGoal = 500000,
      pj_image = ''/assets/images/project-locust.jpg''\<rparr>,
     \<lparr>pj_id = ''PROJLATAM02'', pj_title = (''Alimenta'' @ [CHR 0xE7, CHR 0xE3] @ ''o Escolar na Am'' @ [CHR 0xE9] @ ''rica Central''),
      pj_region = ''LATAM-CA'', pj_type = ''school_feeding'',
      pj_description = (''Garantir refei'' @ [CHR 0xE7, CHR 0xF5] @ ''es nutritivas di'' @ [CHR 0xE1] @ ''rias...''),
      pj_fundingProgress = 90, pj_fundingGoal = 300000,
      pj_image = ''/assets/images/project-school-meal.jpg''\<rparr>,
     \<lparr>pj_id = ''PROJASIA01'', pj_title = (''Sementes Resilientes no Sudeste Asi'' @ [CHR 0xE1] @ ''tico''),
      pj_region = ''ASIA-SE'', pj_type = ''agriculture_support'',
      pj_description = (''Distribui'' @ [CHR 0xE7, CHR 0xE3] @ ''o de sementes adaptadas...''),
      pj_fundingProgress = 60, pj_fundingGoal = 400000,
      pj_image = ''/assets/images/project-seeds.jpg''\<rparr>,
     \<lparr>pj_id = ''PROJMENA03'', pj_title = (''Ajuda Emergencial no I'' @ [CHR 0xEA] @ ''men''),
      pj_region = ''MENA'', pj_type = ''emergency_relief'',
      pj_description = (''Kits de alimentos e higiene para fam'' @ [CHR 0xED] @ ''lias deslocadas.''),
      pj_fundingProgress = 85, pj_fundingGoal = 1000000,
      pj_image = ''/assets/images/project-emergency.jpg''\<rparr>]"

text \<open>\<open>x || 'all'\<close> for an optional string: a missing or empty \<open>x\<close> gives \<open>'all'\<close>.\<close>

definition or_all :: "string option \<Rightarrow> string" where
  "or_all x = (case x of None \<Rightarrow> ''all'' | Some s \<Rightarrow> (if s = [] then ''all'' else s))"

definition Utils_fetchData :: "env \<Rightarrow> string \<Rightarrow> options \<Rightarrow> js_error + response" where
  "Utils_fetchData e endpoint opts =
     (if startsWith endpoint ''/dashboard'' then
        Inr \<lparr>rs_success = True, rs_message = None,
             rs_data = Some (DashboardData
               \<lparr>db_globalHungerIndex = 18.2 + (random e 1 - 0.5),
                db_peopleAffected = 811 + \<lfloor>random e 2 * 10 - 5\<rfloor>,
                db_fundingGap = 7.3 + (random e 3 - 0.5),
                db_fundingProgress = 65 + \<lfloor>random e 4 * 10 - 5\<rfloor>,
                db_activeProjects = 1245 + \<lfloor>random e 5 * 20 - 10\<rfloor>,
                db_lastUpdated = clock e 0,
                db_mapData = mapData,
                db_alerts = alerts e\<rparr>)\<rparr>
      else if startsWith endpoint ''/projects'' then
        (let regionFilter = or_all (case op_params opts of None \<Rightarrow> None | Some p \<Rightarrow> f_region p);
             typeFilter = or_all (case op_params opts of None \<Rightarrow> None | Some p \<Rightarrow> f_type p);
             filteredProjects = filter (\<lambda>p.
                 (regionFilter = ''all'' \<or> pj_region p = regionFilter) \<and>
                 (typeFilter = ''all'' \<or> pj_type p = typeFilter)) allProjects
         in Inr \<lparr>rs_success = True, rs_message = None,
                 rs_data = Some (ProjectList filteredProjects)\<rparr>)
      else if startsWith endpoint ''/process-donation'' \<or> startsWith endpoint ''/process-volunteer''
              \<or> startsWith endpoint ''/subscribe-newsletter'' then
        Inr \<lparr>rs_success = True, rs_message = Some ''Dados recebidos com sucesso!'',
             rs_data = None\<rparr>
      else Inl (Error (''Falha ao buscar dados de '' @ endpoint)))"

text \<open>The five path prefixes for which the gateway holds a canned answer.\<close>

definition mocked :: "string \<Rightarrow> bool" where
  "mocked endpoint =
     (startsWith endpoint ''/dashboard'' \<or> startsWith endpoint ''/projects''
      \<or> startsWith endpoint ''/process-donation'' \<or> startsWith endpoint ''/process-volunteer''
      \<or> startsWith endpoint ''/subscribe-newsletter'')"

text \<open>The answer that the gateway holds for the three form endpoints.\<close>

definition form_ack :: response where
  "form_ack = \<lparr>rs_success = True, rs_message = Some ''Dados recebidos com sucesso!'',
                rs_data = None\<rparr>"

section \<open>DOM helpers and the feedback component\<close>

text \<open>
  An element built by the script: tag, id, class list, attributes, own text and child
  elements. \<open>className\<close> is kept as the list of the class names it holds.
\<close>

datatype node = Node (nd_tag: string) (nd_id: string) (nd_classes: "string list")
  (nd_attributes: "(string \<times> string) list") (nd_text: string) (nd_children: "node list")

text \<open>
  The options object of \<open>DOM.createEl\<close>. A property that the caller leaves out is the
  empty string or the empty list, which the \<open>if (options.x)\<close> tests of \<open>createEl\<close> treat
  like a missing one. \<open>UI.showLoading\<close> passes an \<open>innerHTML\<close> property; \<open>createEl\<close> has
  no statement that reads it.
\<close>

record create_options =
  co_textContent :: string
  co_className :: "string list"
  co_id :: string
  co_attributes :: "(string \<times> string) list"
  co_children :: "node list"
  co_innerHTML :: string

definition DOM_createEl :: "string \<Rightarrow> create_options \<Rightarrow> node" where
  "DOM_createEl tag opts =
     Node tag (co_id opts) (co_className opts) (co_attributes opts) (co_textContent opts)
       (co_children opts)"

text \<open>The descendants of an element in document order, and \<open>querySelector\<close> for a class
  selector and for a tag selector: the first descendant that matches, or \<open>null\<close>.\<close>

fun descendants :: "node \<Rightarrow> node list" where
  "descendants (Node t i c a x ks) = concat (map (\<lambda>k. k # descendants k) ks)"

definition querySelector_class :: "string \<Rightarrow> node \<Rightarrow> node option" where
  "querySelector_class c n = find (\<lambda>d. c \<in> set (nd_classes d)) (descendants n)"

definition querySelector_tag :: "string \<Rightarrow> node \<Rightarrow> node option" where
  "querySelector_tag t n = find (\<lambda>d. nd_tag d = t) (descendants n)"

fun node_textContent :: "node \<Rightarrow> string" where
  "node_textContent (Node t i c a x ks) = x @ concat (map node_textContent ks)"

text \<open>
  The submit control of a form: its \<open>disabled\<close> flag, its text, and the loading indicator
  (the descendant of class \<open>sgcf-loader\<close>) when one is attached. The markup of the control
  is taken to hold text only, so the indicator is its only possible child element.
\<close>

record button =
  btn_disabled :: bool
  btn_text :: string
  btn_loader :: "node option"

definition get_textContent :: "button \<Rightarrow> string" where
  "get_textContent b =
     btn_text b @ (case btn_loader b of None \<Rightarrow> [] | Some l \<Rightarrow> node_textContent l)"

text \<open>Assigning \<open>textContent\<close> replaces every child of the control by one text node.\<close>

definition set_textContent :: "string \<Rightarrow> button \<Rightarrow> button" where
  "set_textContent s b = b\<lparr>btn_text := s, btn_loader := None\<rparr>"

text \<open>
  \<open>UI.showLoading(element)\<close>, for \<open>element\<close> a control or \<open>null\<close>. The result is the
  exception raised, if any, and the control as the call leaves it. The inline styles that
  the function sets on the indicator have no counterpart here, but the two lookups whose
  result it dereferences do: \<open>loader.querySelector('.spinner')\<close> and
  \<open>loader.querySelector('span')\<close>.
\<close>

definition UI_showLoading :: \<open>button option \<Rightarrow> js_error option \<times> button option\<close> where
  \<open>UI_showLoading element =
     (case element of
        None \<Rightarrow> (None, None)
      | Some el \<Rightarrow>
          (let el1 = el\<lparr>btn_loader := None\<rparr>;
               loader = DOM_createEl ''div''
                 \<lparr>co_textContent = [], co_className = [''sgcf-loader''], co_id = [],
                  co_attributes = [(''aria-hidden'', ''true'')], co_children = [],
                  co_innerHTML = (''<div class='' @ [CHR 0x22] @ ''spinner'' @ [CHR 0x22] @ ''></div><span>Carregando...</span>'')\<rparr>
           in case querySelector_class ''spinner'' loader of
                None \<Rightarrow> (Some (TypeError ''loader.querySelector(.spinner).style''), Some el1)
              | Some _ \<Rightarrow>
                  (case querySelector_tag ''span'' loader of
                     None \<Rightarrow> (Some (TypeError ''loader.querySelector(span).style''), Some el1)
                   | Some _ \<Rightarrow> (None, Some (el1\<lparr>btn_loader := Some loader\<rparr>)))))\<close>

definition UI_hideLoading :: "button \<Rightarrow> button" where
  "UI_hideLoading el = el\<lparr>btn_loader := None\<rparr>"

text \<open>
  A notice shown by \<open>UI.displayFeedback\<close>: its type (\<open>error\<close>, \<open>success\<close>, ...) and its
  text. The timer that removes the notice after 10 or 5 seconds is not modelled.
\<close>

record notice =
  nt_type :: string
  nt_message :: string

section \<open>The state of a form and of the page around it\<close>

text \<open>
  What a submit handler reads and writes: the controls that the form owns or contains, in
  document order, its submit button
  (\<open>form.querySelector('button[type="submit"]')\<close>, \<open>None\<close> for \<open>null\<close>), the notice in the
  feedback container of the form (at most one: a new notice replaces the old one), the
  list of calls made to the gateway so far, and the exception that left a handler
  uncaught, if one did.
\<close>

record form_state =
  elements :: "element list"
  submitButton :: "button option"
  feedback :: "notice option"
  calls :: "(string \<times> options) list"
  uncaught :: "js_error option"

text \<open>\<open>UI.displayFeedback(message, feedbackContainer, type)\<close> for the feedback container of
  the form, which is the form itself when it has no \<open>.form-actions\<close> child and so is never
  \<open>null\<close>.\<close>

definition UI_displayFeedback :: "string \<Rightarrow> string \<Rightarrow> 'a form_state_scheme \<Rightarrow> 'a form_state_scheme" where
  "UI_displayFeedback message type st =
     st\<lparr>feedback := Some \<lparr>nt_type = type, nt_message = message\<rparr>\<rparr>"

text \<open>\<open>form.elements\<close>: the controls that the form owns.\<close>

definition form_elements :: "element list \<Rightarrow> element list" where
  "form_elements es = filter el_owned es"

text \<open>\<open>form.reset()\<close>: every control that the form owns returns to its default state.\<close>

definition form_reset :: "element list \<Rightarrow> element list" where
  "form_reset es =
     map (\<lambda>e. if el_owned e
              then e\<lparr>el_checked := el_defaultChecked e, el_value := el_defaultValue e\<rparr>
              else e) es"

text \<open>The controls matched by \<open>DOM.qsa('input[name="..."]:checked', form)\<close>, in document
  order: the checked checkboxes and radio buttons of that name inside the form, disabled
  or not.\<close>

definition qsa_checked :: "string \<Rightarrow> element list \<Rightarrow> element list" where
  "qsa_checked name es =
     filter (\<lambda>e. el_inside e \<and> el_name e = name
                 \<and> el_type e \<in> set [''checkbox'', ''radio''] \<and> el_checked e) es"

text \<open>\<open>DOM.qs('input[name="..."]:checked', form)?.value\<close>.\<close>

definition checked_value :: "string \<Rightarrow> element list \<Rightarrow> string option" where
  "checked_value name es = (case qsa_checked name es of [] \<Rightarrow> None | e # _ \<Rightarrow> Some (el_value e))"

section \<open>The API facade \<open>ApiService\<close>\<close>

text \<open>
  The gateway is a parameter of the facade and of the handlers, so that they can be run
  against any outcome of the asynchronous call; in the application it is
  \<open>Utils_fetchData e\<close>. Each call is appended to \<open>calls\<close>. \<open>Inl\<close> is a rejected promise.
\<close>

type_synonym gateway = "string \<Rightarrow> options \<Rightarrow> js_error + response"

definition post_options :: "form_data \<Rightarrow> options" where
  "post_options formData =
     \<lparr>op_method = Some ''POST'', op_headers = [(''Content-Type'', ''application/json'')],
      op_body = Some formData, op_params = None\<rparr>"

text \<open>\<open>response.message || fallback\<close>.\<close>

definition message_or :: "string option \<Rightarrow> string \<Rightarrow> string" where
  "message_or m fallback = (case m of None \<Rightarrow> fallback | Some s \<Rightarrow> (if s = [] then fallback else s))"

definition submitDonation ::
  "gateway \<Rightarrow> form_data \<Rightarrow> 'a form_state_scheme \<Rightarrow> (js_error + response) \<times> 'a form_state_scheme" where
  "submitDonation gw formData st =
     (let opts = post_options formData;
          st1 = st\<lparr>calls := calls st @ [(''/process-donation'', opts)]\<rparr>
      in case gw ''/process-donation'' opts of
           Inr response \<Rightarrow>
             (if rs_success response then (Inr response, st1)
              else (Inl (Error (message_or (rs_message response) (''Falha ao processar doa'' @ [CHR 0xE7, CHR 0xE3] @ ''o.''))), st1))
         | Inl error \<Rightarrow> (Inl error, st1))"

definition submitVolunteerForm ::
  "gateway \<Rightarrow> form_data \<Rightarrow> 'a form_state_scheme \<Rightarrow> (js_error + response) \<times> 'a form_state_scheme" where
  "submitVolunteerForm gw formData st =
     (let opts = post_options formData;
          st1 = st\<lparr>calls := calls st @ [(''/process-volunteer'', opts)]\<rparr>
      in case gw ''/process-volunteer'' opts of
           Inr response \<Rightarrow>
             (if rs_success response then (Inr response, st1)
              else (Inl (Error (message_or (rs_message response) (''Falha ao enviar inscri'' @ [CHR 0xE7, CHR 0xE3] @ ''o.''))), st1))
         | Inl error \<Rightarrow> (Inl error, st1))"

definition submitNewsletter ::
  "gateway \<Rightarrow> string \<Rightarrow> 'a form_state_scheme \<Rightarrow> (js_error + response) \<times> 'a form_state_scheme" where
  "submitNewsletter gw email st =
     (let opts = post_options [''email'' \<mapsto> Scalar email];
          st1 = st\<lparr>calls := calls st @ [(''/subscribe-newsletter'', opts)]\<rparr>
      in case gw ''/subscribe-newsletter'' opts of
           Inr response \<Rightarrow>
             (if rs_success response then (Inr response, st1)
              else (Inl (Error (message_or (rs_message response) ''Falha ao inscrever na newsletter.'')), st1))
         | Inl error \<Rightarrow> (Inl error, st1))"

section \<open>The donation form\<close>

text \<open>
  The four conditional groups of the donation form: \<open>#money-donation-fields\<close>,
  \<open>#goods-donation-fields\<close>, \<open>.payment-methods\<close> and \<open>#pix-details\<close>. \<open>present\<close> holds
  the groups that exist in the document (for the others the lookup gives \<open>null\<close>), \<open>shown\<close>
  the groups that are not hidden. \<open>presetActive\<close> is the \<open>active\<close> class of each preset
  amount button; \<open>volunteerTab\<close> tells whether \<open>#tab-volunteer\<close> exists and \<open>tabClicks\<close>
  counts the clicks the script has sent to it.
\<close>

datatype group = MoneyFields | GoodsFields | PaymentGroup | PixDetails

record donation_state = form_state +
  present :: "group set"
  shown :: "group set"
  presetActive :: "bool list"
  volunteerTab :: bool
  tabClicks :: nat

text \<open>\<open>DOM.show\<close> and \<open>DOM.hide\<close> do nothing for \<open>null\<close>.\<close>

definition DOM_show :: "group \<Rightarrow> 'a donation_state_scheme \<Rightarrow> 'a donation_state_scheme" where
  "DOM_show g st = (if g \<in> present st then st\<lparr>shown := insert g (shown st)\<rparr> else st)"

definition DOM_hide :: "group \<Rightarrow> 'a donation_state_scheme \<Rightarrow> 'a donation_state_scheme" where
  "DOM_hide g st = (if g \<in> present st then st\<lparr>shown := shown st - {g}\<rparr> else st)"

text \<open>The groups a visitor sees.\<close>

definition visible :: "'a donation_state_scheme \<Rightarrow> group set" where
  "visible st = shown st \<inter> present st"

definition toggleDonationFields :: "string \<Rightarrow> 'a donation_state_scheme \<Rightarrow> 'a donation_state_scheme" where
  "toggleDonationFields selectedValue st =
     (let st1 = DOM_hide PixDetails (DOM_hide PaymentGroup (DOM_hide GoodsFields (DOM_hide MoneyFields st)))
      in
      if selectedValue = ''money'' then
        (let st2 = DOM_show PaymentGroup (DOM_show MoneyFields st1);
             pixRadio = find (\<lambda>e. el_value e = ''pix'') (qsa_checked ''payment_method'' (elements st2))
         in if pixRadio \<noteq> None \<and> PixDetails \<in> present st2 then DOM_show PixDetails st2 else st2)
      else if selectedValue = ''goods'' then DOM_show GoodsFields st1
      else if selectedValue = ''time'' then
        (if volunteerTab st1 then st1\<lparr>tabClicks := Suc (tabClicks st1)\<rparr> else st1)
      else st1)"

text \<open>The groups that \<open>toggleDonationFields\<close> shows for a selected value, given the
  controls of the form; used to state what the function leaves visible.\<close>

definition shown_for :: "string \<Rightarrow> element list \<Rightarrow> group set" where
  "shown_for v es =
     (if v = ''money'' then
        {MoneyFields, PaymentGroup} \<union>
        (if find (\<lambda>e. el_value e = ''pix'') (qsa_checked ''payment_method'' es) \<noteq> None
         then {PixDetails} else {})
      else if v = ''goods'' then {GoodsFields} else {})"

text \<open>The two values that \<open>initDonationForm\<close> reads once and that its submit handler keeps
  in its closure.\<close>

record donation_closure =
  initialDonationType :: "string option"
  initialPayment :: "string option"

text \<open>\<open>if (initialDonationType)\<close>: \<open>undefined\<close> and the empty string are falsy.\<close>

definition truthy_string :: "string option \<Rightarrow> bool" where
  "truthy_string x = (case x of None \<Rightarrow> False | Some s \<Rightarrow> s \<noteq> [])"

text \<open>
  The part of \<open>initDonationForm\<close> that runs at once when the page loads (the rest
  registers listeners): it returns the closure and the page as it leaves it. Line 817
  is \<open>DOM.qs('.copy-pix-key', pixDetails)\<close>; the default value of the second
  parameter of \<open>DOM.qs\<close> replaces \<open>undefined\<close> only, so when \<open>#pix-details\<close> does not
  exist the call reads \<open>querySelector\<close> of \<open>null\<close> and raises a \<open>TypeError\<close> before anything
  is toggled or registered.
\<close>

definition initDonationForm ::
  "'a donation_state_scheme \<Rightarrow> js_error + donation_closure \<times> 'a donation_state_scheme" where
  "initDonationForm st =
     (if PixDetails \<notin> present st then Inl (TypeError ''DOM.qs(.copy-pix-key, null)'')
      else
        (let idt = checked_value ''donation_type'' (elements st);
             st1 = (case idt of None \<Rightarrow> st
                    | Some v \<Rightarrow> (if truthy_string idt then toggleDonationFields v st else st));
             ip = checked_value ''payment_method'' (elements st1);
             st2 = (if PixDetails \<in> present st1 \<and> ip \<noteq> Some ''pix''
                    then DOM_hide PixDetails st1 else st1)
         in Inr (\<lparr>initialDonationType = idt, initialPayment = ip\<rparr>, st2)))"

text \<open>
  A visitor picks the radio button of value \<open>v\<close> in the group \<open>name\<close> of the form: the
  browser checks it and unchecks the other radio buttons of the group, which are the radio
  buttons of that name that the form owns. The \<open>change\<close> listener of the
  donation-type radios then calls \<open>toggleDonationFields\<close> with the value picked.
\<close>

definition pick_radio :: "string \<Rightarrow> string \<Rightarrow> element list \<Rightarrow> element list" where
  "pick_radio name v es =
     map (\<lambda>e. if el_owned e \<and> el_name e = name \<and> el_type e = ''radio''
              then e\<lparr>el_checked := (el_value e = v)\<rparr> else e) es"

definition donationTypeChange :: "string \<Rightarrow> 'a donation_state_scheme \<Rightarrow> 'a donation_state_scheme" where
  "donationTypeChange v st =
     toggleDonationFields v (st\<lparr>elements := pick_radio ''donation_type'' v (elements st)\<rparr>)"

text \<open>The \<open>change\<close> listener of the payment-method radios, after the browser has checked
  the radio picked.\<close>

definition paymentMethodChange :: "string \<Rightarrow> 'a donation_state_scheme \<Rightarrow> 'a donation_state_scheme" where
  "paymentMethodChange v st =
     (let st1 = st\<lparr>elements := pick_radio ''payment_method'' v (elements st)\<rparr>
      in if PixDetails \<in> present st1 then
           (if v = ''pix'' then DOM_show PixDetails st1 else DOM_hide PixDetails st1)
         else st1)"

text \<open>The \<open>finally\<close> block shared by the three submit handlers.\<close>

definition restore_button :: "string \<Rightarrow> 'a form_state_scheme \<Rightarrow> 'a form_state_scheme" where
  "restore_button originalButtonText st =
     st\<lparr>submitButton :=
          map_option (\<lambda>b. set_textContent originalButtonText ((UI_hideLoading b)\<lparr>btn_disabled := False\<rparr>))
            (submitButton st)\<rparr>"

text \<open>The statements of the \<open>try\<close> block of the donation submit handler that follow the
  \<open>await\<close> (lines 937 to 942): they run when the facade call has resolved.\<close>

definition donation_success ::
  "response \<Rightarrow> donation_closure \<Rightarrow> 'a donation_state_scheme \<Rightarrow> 'a donation_state_scheme" where
  "donation_success response cl st1 =
     (let st2 = UI_displayFeedback
                  (message_or (rs_message response) (''Doa'' @ [CHR 0xE7, CHR 0xE3] @ ''o processada com sucesso!''))
                  ''success'' st1;
          st3 = st2\<lparr>elements := form_reset (elements st2)\<rparr>;
          st4 = (case initialDonationType cl of None \<Rightarrow> st3
                 | Some v \<Rightarrow> (if truthy_string (initialDonationType cl)
                              then toggleDonationFields v st3 else st3));
          st5 = st4\<lparr>presetActive := map (\<lambda>_. False) (presetActive st4)\<rparr>
      in if PixDetails \<in> present st5 \<and> initialPayment cl \<noteq> Some ''pix''
         then DOM_hide PixDetails st5 else st5)"

text \<open>
  The \<open>try\<close>/\<open>catch\<close>/\<open>finally\<close> statement of the donation submit handler (lines 934 to
  950), from the state in which control reaches it.
\<close>

definition donation_try ::
  "gateway \<Rightarrow> donation_closure \<Rightarrow> string \<Rightarrow> 'a donation_state_scheme \<Rightarrow> 'a donation_state_scheme" where
  "donation_try gw cl originalButtonText st =
     (let formData = serializeForm (form_elements (elements st));
          (res, st1) = submitDonation gw formData st
      in restore_button originalButtonText
        (case res of
           Inr response \<Rightarrow> donation_success response cl st1
         | Inl error \<Rightarrow>
             UI_displayFeedback ((''Erro ao processar doa'' @ [CHR 0xE7, CHR 0xE3] @ ''o: '') @ err_message error) ''error'' st1))"

text \<open>
  The submit listener of the donation form. \<open>valid\<close> is the result of
  \<open>form.checkValidity()\<close>. Reading \<open>textContent\<close> of a missing submit button raises a
  \<open>TypeError\<close>; \<open>UI.showLoading\<close> is called before the \<open>try\<close> statement, so an exception it
  raises leaves the listener.
\<close>

definition donation_submit ::
  "gateway \<Rightarrow> donation_closure \<Rightarrow> bool \<Rightarrow> 'a donation_state_scheme \<Rightarrow> 'a donation_state_scheme" where
  "donation_submit gw cl valid st =
     (let st1 = st\<lparr>feedback := None\<rparr>
      in if \<not> valid then
           UI_displayFeedback (''Por favor, corrija os erros no formul'' @ [CHR 0xE1] @ ''rio.'') ''error'' st1
         else
           (case submitButton st1 of
              None \<Rightarrow> st1\<lparr>uncaught := Some (TypeError ''submitButton.textContent'')\<rparr>
            | Some b \<Rightarrow>
                (let originalButtonText = get_textContent b;
                     b1 = set_textContent ''Processando...'' (b\<lparr>btn_disabled := True\<rparr>);
                     (ex, b2) = UI_showLoading (Some b1);
                     st2 = st1\<lparr>submitButton := b2\<rparr>
                 in case ex of
                      Some error \<Rightarrow> st2\<lparr>uncaught := Some error\<rparr>
                    | None \<Rightarrow> donation_try gw cl originalButtonText st2)))"

section \<open>The volunteer form\<close>

definition volunteer_try :: "gateway \<Rightarrow> string \<Rightarrow> 'a form_state_scheme \<Rightarrow> 'a form_state_scheme" where
  "volunteer_try gw originalButtonText st =
     (let formData = serializeForm (form_elements (elements st));
          formData1 = formData(''skills'' \<mapsto> Seq (map el_value (qsa_checked ''skills[]'' (elements st))));
          (res, st1) = submitVolunteerForm gw formData1 st
      in restore_button originalButtonText
        (case res of
           Inr response \<Rightarrow>
             (let st2 = UI_displayFeedback
                          (message_or (rs_message response)
                             (''Inscri'' @ [CHR 0xE7, CHR 0xE3] @ ''o enviada com sucesso! Entraremos em contato.''))
                          ''success'' st1
              in st2\<lparr>elements := form_reset (elements st2)\<rparr>)
         | Inl error \<Rightarrow>
             UI_displayFeedback ((''Erro ao enviar inscri'' @ [CHR 0xE7, CHR 0xE3] @ ''o: '') @ err_message error) ''error'' st1))"

definition volunteer_submit :: "gateway \<Rightarrow> bool \<Rightarrow> 'a form_state_scheme \<Rightarrow> 'a form_state_scheme" where
  "volunteer_submit gw valid st =
     (let st1 = st\<lparr>feedback := None\<rparr>
      in if \<not> valid then
           UI_displayFeedback (''Por favor, preencha os campos obrigat'' @ [CHR 0xF3] @ ''rios.'') ''error'' st1
         else
           (case submitButton st1 of
              None \<Rightarrow> st1\<lparr>uncaught := Some (TypeError ''submitButton.textContent'')\<rparr>
            | Some b \<Rightarrow>
                (let originalButtonText = get_textContent b;
                     b1 = set_textContent ''Enviando...'' (b\<lparr>btn_disabled := True\<rparr>);
                     (ex, b2) = UI_showLoading (Some b1);
                     st2 = st1\<lparr>submitButton := b2\<rparr>
                 in case ex of
                      Some error \<Rightarrow> st2\<lparr>uncaught := Some error\<rparr>
                    | None \<Rightarrow> volunteer_try gw originalButtonText st2)))"

section \<open>The newsletter form\<close>

definition newsletter_try ::
  "gateway \<Rightarrow> string \<Rightarrow> string \<Rightarrow> 'a form_state_scheme \<Rightarrow> 'a form_state_scheme" where
  "newsletter_try gw email originalButtonText st =
     (let (res, st1) = submitNewsletter gw email st
      in restore_button originalButtonText
        (case res of
           Inr response \<Rightarrow>
             (let st2 = UI_displayFeedback
                          (message_or (rs_message response) (''Inscri'' @ [CHR 0xE7, CHR 0xE3] @ ''o realizada com sucesso!''))
                          ''success'' st1
              in st2\<lparr>elements := form_reset (elements st2)\<rparr>)
         | Inl error \<Rightarrow>
             UI_displayFeedback ((''Erro na inscri'' @ [CHR 0xE7, CHR 0xE3] @ ''o: '') @ err_message error) ''error'' st1))"

text \<open>
  The submit listener of the newsletter form. \<open>valid\<close> is the result of
  \<open>emailInput.checkValidity()\<close>, where \<open>emailInput\<close> is the control of id
  \<open>footer-newsletter-email\<close> inside the form; reading \<open>value\<close> of a missing one raises a
  \<open>TypeError\<close>.
\<close>

definition newsletter_submit :: "gateway \<Rightarrow> bool \<Rightarrow> 'a form_state_scheme \<Rightarrow> 'a form_state_scheme" where
  "newsletter_submit gw valid st =
     (case find (\<lambda>e. el_inside e \<and> el_id e = ''footer-newsletter-email'') (elements st) of
        None \<Rightarrow> st\<lparr>uncaught := Some (TypeError ''emailInput.value'')\<rparr>
      | Some emailInput \<Rightarrow>
          (let email = el_value emailInput;
               st1 = st\<lparr>feedback := None\<rparr>
           in if email = [] \<or> \<not> valid then
                UI_displayFeedback (''Por favor, insira um email v'' @ [CHR 0xE1] @ ''lido.'') ''error'' st1
              else
                (case submitButton st1 of
                   None \<Rightarrow> st1\<lparr>uncaught := Some (TypeError ''submitButton.textContent'')\<rparr>
                 | Some b \<Rightarrow>
                     (let originalButtonText = get_textContent b;
                          (ex, b2) = UI_showLoading (Some (b\<lparr>btn_disabled := True\<rparr>));
                          st2 = st1\<lparr>submitButton := b2\<rparr>
                      in case ex of
                           Some error \<Rightarrow> st2\<lparr>uncaught := Some error\<rparr>
                         | None \<Rightarrow> newsletter_try gw email originalButtonText st2))))"

section \<open>The theme preference\<close>

text \<open>
  The part of the application state and of the page that \<open>toggleTheme\<close> touches:
  \<open>appState.currentTheme\<close>, the \<open>localStorage\<close> of the origin, the class list of
  \<open>document.body\<close>, the \<open>aria-label\<close> of the control \<open>[data-action="toggle-theme"]\<close>
  (\<open>None\<close> when the page has no such control; its \<open>innerHTML\<close> is not modelled) and the text
  of the live region \<open>#sgcf-live-region\<close> (\<open>None\<close> until \<open>UI.updateLiveRegion\<close> creates
  it; the timer that empties it after a second is not modelled).
\<close>

record app_state =
  currentTheme :: string
  localStorage :: "string \<rightharpoonup> string"
  bodyClasses :: "string list"
  themeToggleLabel :: "string option"
  liveRegion :: "string option"

definition themeLocalStorageKey :: string where
  "themeLocalStorageKey = ''sgcf_theme''"

text \<open>The initializer of \<open>appState\<close>:
  \<open>localStorage.getItem(config.themeLocalStorageKey) || 'light'\<close>.\<close>

definition initial_theme :: "(string \<rightharpoonup> string) \<Rightarrow> string" where
  "initial_theme store =
     (case store themeLocalStorageKey of
        None \<Rightarrow> ''light''
      | Some t \<Rightarrow> (if t = [] then ''light'' else t))"

text \<open>The application state when the script has started on a page with the given storage,
  body classes and toggle control.\<close>

definition app_start :: "(string \<rightharpoonup> string) \<Rightarrow> string list \<Rightarrow> string option \<Rightarrow> app_state" where
  "app_start store classes label =
     \<lparr>currentTheme = initial_theme store, localStorage = store, bodyClasses = classes,
      themeToggleLabel = label, liveRegion = None\<rparr>"

text \<open>\<open>classList.add\<close> appends a class that the list does not hold yet.\<close>

definition classList_add :: "string \<Rightarrow> string list \<Rightarrow> string list" where
  "classList_add c cs = (if c \<in> set cs then cs else cs @ [c])"

definition updateThemeToggleButton :: "app_state \<Rightarrow> app_state" where
  "updateThemeToggleButton st =
     (if currentTheme st = ''dark''
      then st\<lparr>themeToggleLabel := Some ''Mudar para Tema Claro''\<rparr>
      else st\<lparr>themeToggleLabel := Some ''Mudar para Tema Escuro''\<rparr>)"

definition UI_updateLiveRegion :: "string \<Rightarrow> app_state \<Rightarrow> app_state" where
  "UI_updateLiveRegion message st = st\<lparr>liveRegion := Some message\<rparr>"

definition toggleTheme :: "app_state \<Rightarrow> app_state" where
  "toggleTheme st =
     (let theme = (if currentTheme st = ''light'' then ''dark'' else ''light'');
          st1 = st\<lparr>currentTheme := theme\<rparr>;
          st2 = st1\<lparr>bodyClasses :=
                  classList_add (''theme-'' @ theme)
                    (filter (\<lambda>c. c \<noteq> ''theme-light'' \<and> c \<noteq> ''theme-dark'') (bodyClasses st1))\<rparr>;
          st3 = st2\<lparr>localStorage := (localStorage st2)(themeLocalStorageKey \<mapsto> theme)\<rparr>;
          st4 = (if themeToggleLabel st3 \<noteq> None then updateThemeToggleButton st3 else st3)
      in UI_updateLiveRegion
           (''Tema alterado para '' @ (if currentTheme st4 = ''dark'' then ''escuro'' else ''claro'') @ ''.'')
           st4)"

section \<open>Sample pages\<close>

text \<open>Concrete inputs on which the theorems below are instantiated. The volunteer form
  has a text control and three skill checkboxes, checked as the three flags say.\<close>

definition env0 :: env where
  "env0 = \<lparr>random = (\<lambda>_. 1 / 2), clock = (\<lambda>_. 0)\<rparr>"

text \<open>The gateway with the path of every request replaced by \<open>endpoint\<close>: what a form
  pipeline receives when its request goes to that path.\<close>

definition gateway_at :: "env \<Rightarrow> string \<Rightarrow> gateway" where
  "gateway_at e endpoint = (\<lambda>_ opts. Utils_fetchData e endpoint opts)"

definition html_button :: "string \<Rightarrow> button" where
  "html_button label = \<lparr>btn_disabled = False, btn_text = label, btn_loader = None\<rparr>"

text \<open>A donation page whose markup checks the donation type \<open>dt\<close> and the payment method
  \<open>pm\<close> (none when \<open>None\<close>), and shows the money fields and the payment methods.\<close>

definition donation_page :: "string option \<Rightarrow> string option \<Rightarrow> donation_state" where
  "donation_page dt pm =
     \<lparr>elements =
        [html_input ''radio'' ''donation_type'' ''money'' (dt = Some ''money'') False,
         html_input ''radio'' ''donation_type'' ''goods'' (dt = Some ''goods'') False,
         html_input ''radio'' ''donation_type'' ''time'' (dt = Some ''time'') False,
         html_input ''number'' ''amount'' ''50'' False False,
         html_input ''radio'' ''payment_method'' ''card'' (pm = Some ''card'') False,
         html_input ''radio'' ''payment_method'' ''pix'' (pm = Some ''pix'') False],
      submitButton = Some (html_button ''Doar''),
      feedback = None, calls = [], uncaught = None,
      present = {MoneyFields, GoodsFields, PaymentGroup, PixDetails},
      shown = {MoneyFields, PaymentGroup},
      presetActive = [False, False, False],
      volunteerTab = True, tabClicks = 0\<rparr>"

definition volunteer_form :: "bool \<Rightarrow> bool \<Rightarrow> bool \<Rightarrow> form_state" where
  "volunteer_form c1 c2 c3 =
     \<lparr>elements =
        [html_input ''text'' ''name'' ''Ana'' False False,
         html_input ''text'' ''skills'' ''none'' False False,
         html_input ''checkbox'' ''skills[]'' ''cooking'' c1 False,
         html_input ''checkbox'' ''skills[]'' ''driving'' c2 False,
         html_input ''checkbox'' ''skills[]'' ''logistics'' c3 False],
      submitButton = Some (html_button ''Enviar''),
      feedback = None, calls = [], uncaught = None\<rparr>"

definition newsletter_form :: form_state where
  "newsletter_form =
     \<lparr>elements =
        [(html_input ''email'' ''email'' ''ana@example.org'' False False)
           \<lparr>el_id := ''footer-newsletter-email''\<rparr>],
      submitButton = Some (html_button ''Assinar''),
      feedback = None, calls = [], uncaught = None\<rparr>"

text \<open>The submit button as the donation listener leaves it before the \<open>try\<close> statement.\<close>

definition busy_button :: "string \<Rightarrow> button \<Rightarrow> button" where
  "busy_button label b = set_textContent label (b\<lparr>btn_disabled := True\<rparr>)"

text \<open>The donation page after the script has started on it: the closure of the submit
  handler and the page. (The sample pages hold \<open>#pix-details\<close>, so \<open>initDonationForm\<close>
  returns.)\<close>

definition loaded :: "string option \<Rightarrow> string option \<Rightarrow> donation_closure \<times> donation_state" where
  "loaded dt pm = projr (initDonationForm (donation_page dt pm))"

text \<open>The same page after the visitor has picked the payment method \<open>pix\<close> and the
  donation type \<open>goods\<close>; and that page with the submit button as the listener sets it
  before the \<open>try\<close> statement.\<close>

definition goods_chosen :: "string option \<Rightarrow> string option \<Rightarrow> donation_state" where
  "goods_chosen dt pm =
     donationTypeChange ''goods'' (paymentMethodChange ''pix'' (snd (loaded dt pm)))"

definition goods_picked :: "string option \<Rightarrow> string option \<Rightarrow> donation_state" where
  "goods_picked dt pm =
     (let st = goods_chosen dt pm
      in st\<lparr>submitButton := map_option (busy_button ''Processando...'') (submitButton st)\<rparr>)"




section \<open>Properties of \<open>serializeForm\<close>\<close>

lemma serializeElement_other_name:
  "el_name e \<noteq> n \<Longrightarrow> serializeElement d e n = d n"
  by (auto simp: serializeElement_def Let_def split: option.splits fvalue.splits)

lemma serializeElement_disabled:
  "el_disabled e \<Longrightarrow> serializeElement d e = d"
  by (simp add: serializeElement_def Let_def)

lemma unchecked_step_keeps_empty:
  assumes "el_name e = n \<and> \<not> el_disabled e \<longrightarrow> el_type e \<in> set [''checkbox'', ''radio''] \<and> \<not> el_checked e"
    and "d n = Some (Seq [])"
  shows "serializeElement d e n = Some (Seq [])"
proof (cases "el_name e = n")
  case False
  then show ?thesis using assms(2) by (simp add: serializeElement_other_name)
next
  case True
  show ?thesis
  proof (cases "el_disabled e")
    case True
    then show ?thesis using assms(2) by (simp add: serializeElement_disabled)
  next
    case False
    with True assms show ?thesis
      by (auto simp: serializeElement_def Let_def)
  qed
qed

lemma unchecked_fold_keeps_empty:
  "unchecked_group n es \<Longrightarrow> d n = Some (Seq []) \<Longrightarrow> foldl serializeElement d es n = Some (Seq [])"
proof (induction es arbitrary: d)
  case Nil
  then show ?case by simp
next
  case (Cons e es)
  from Cons.prems(1) have tl: "unchecked_group n es"
    by (simp add: unchecked_group_def)
  from Cons.prems have "serializeElement d e n = Some (Seq [])"
    by (intro unchecked_step_keeps_empty) (auto simp: unchecked_group_def)
  with Cons.IH [of "serializeElement d e", OF tl] show ?case by simp
qed

lemma unchecked_step_falsy:
  assumes "el_name e = n \<and> \<not> el_disabled e \<longrightarrow> el_type e \<in> set [''checkbox'', ''radio''] \<and> \<not> el_checked e"
    and "endsWith n ''[]''"
    and "d n = None \<or> d n = Some (Seq [])"
  shows "serializeElement d e n = None \<or> serializeElement d e n = Some (Seq [])"
proof (cases "el_name e = n")
  case False
  then show ?thesis using assms(3) by (simp add: serializeElement_other_name)
next
  case True
  show ?thesis
  proof (cases "el_disabled e")
    case True
    then show ?thesis using assms(3) by (simp add: serializeElement_disabled)
  next
    case False
    with True assms show ?thesis
      by (auto simp: serializeElement_def Let_def)
  qed
qed

lemma unchecked_step_checkbox:
  assumes "el_name e = n" "\<not> el_disabled e" "el_type e = ''checkbox''" "\<not> el_checked e"
    and "endsWith n ''[]''"
    and "d n = None \<or> d n = Some (Seq [])"
  shows "serializeElement d e n = Some (Seq [])"
proof -
  from assms(5) have "n \<noteq> []" by (auto simp: endsWith_def)
  with assms show ?thesis
    by (auto simp: serializeElement_def Let_def)
qed

lemma unchecked_fold_sets_empty:
  assumes "endsWith n ''[]''"
  shows "unchecked_group n es \<Longrightarrow> d n = None \<or> d n = Some (Seq []) \<Longrightarrow>
     \<exists>e \<in> set es. el_name e = n \<and> \<not> el_disabled e \<and> el_type e = ''checkbox'' \<Longrightarrow>
     foldl serializeElement d es n = Some (Seq [])"
proof (induction es arbitrary: d)
  case Nil
  then show ?case by simp
next
  case (Cons e es)
  from Cons.prems(1) have tl: "unchecked_group n es"
    and hd: "el_name e = n \<and> \<not> el_disabled e \<longrightarrow> el_type e \<in> set [''checkbox'', ''radio''] \<and> \<not> el_checked e"
    by (simp_all add: unchecked_group_def)
  show ?case
  proof (cases "el_name e = n \<and> \<not> el_disabled e \<and> el_type e = ''checkbox''")
    case True
    with hd have "\<not> el_checked e" by simp
    with True assms Cons.prems(2) have "serializeElement d e n = Some (Seq [])"
      by (intro unchecked_step_checkbox) auto
    with tl show ?thesis by (simp add: unchecked_fold_keeps_empty)
  next
    case False
    with Cons.prems(3) have ex: "\<exists>e \<in> set es. el_name e = n \<and> \<not> el_disabled e \<and> el_type e = ''checkbox''"
      by auto
    from hd assms Cons.prems(2)
    have "serializeElement d e n = None \<or> serializeElement d e n = Some (Seq [])"
      by (rule unchecked_step_falsy)
    from Cons.IH [of "serializeElement d e", OF tl this ex] show ?thesis by simp
  qed
qed

lemma boxes_step_grows:
  assumes "el_name e = n \<and> \<not> el_disabled e \<longrightarrow> el_type e \<in> set [''checkbox'', ''radio'']"
    and "truthy (d n)"
  shows "truthy (serializeElement d e n) \<and> (\<exists>ys. to_array (serializeElement d e n) = to_array (d n) @ ys)"
proof (cases "el_name e = n")
  case False
  then show ?thesis using assms(2) by (simp add: serializeElement_other_name)
next
  case True
  show ?thesis
  proof (cases "el_disabled e")
    case True
    then show ?thesis using assms(2) by (simp add: serializeElement_disabled)
  next
    case False
    with True assms show ?thesis
      by (cases "d n" rule: truthy.cases) (auto simp: serializeElement_def Let_def)
  qed
qed

lemma boxes_fold_grows:
  "boxes_only n es \<Longrightarrow> truthy (d n) \<Longrightarrow>
   truthy (foldl serializeElement d es n) \<and>
   (\<exists>ys. to_array (foldl serializeElement d es n) = to_array (d n) @ ys)"
proof (induction es arbitrary: d)
  case Nil
  then show ?case by simp
next
  case (Cons e es)
  from Cons.prems(1) have tl: "boxes_only n es"
    and hd: "el_name e = n \<and> \<not> el_disabled e \<longrightarrow> el_type e \<in> set [''checkbox'', ''radio'']"
    by (simp_all add: boxes_only_def)
  from boxes_step_grows [of e n d, OF hd Cons.prems(2)]
  obtain ys where t: "truthy (serializeElement d e n)"
    and a: "to_array (serializeElement d e n) = to_array (d n) @ ys" by blast
  from Cons.IH [of "serializeElement d e", OF tl t] a show ?case by auto
qed

lemma boxes_step_stays_array:
  assumes "el_name e = n \<and> \<not> el_disabled e \<longrightarrow> el_type e \<in> set [''checkbox'', ''radio'']"
    and "d n = Some (Seq xs)"
  shows "\<exists>ys. serializeElement d e n = Some (Seq (xs @ ys))"
proof (cases "el_name e = n")
  case False
  then show ?thesis using assms(2) by (simp add: serializeElement_other_name)
next
  case True
  show ?thesis
  proof (cases "el_disabled e")
    case True
    then show ?thesis using assms(2) by (simp add: serializeElement_disabled)
  next
    case False
    with True assms show ?thesis
      by (auto simp: serializeElement_def Let_def)
  qed
qed

lemma boxes_fold_stays_array:
  "boxes_only n es \<Longrightarrow> d n = Some (Seq xs) \<Longrightarrow>
   \<exists>ys. foldl serializeElement d es n = Some (Seq (xs @ ys))"
proof (induction es arbitrary: d xs)
  case Nil
  then show ?case by simp
next
  case (Cons e es)
  from Cons.prems(1) have tl: "boxes_only n es"
    and hd: "el_name e = n \<and> \<not> el_disabled e \<longrightarrow> el_type e \<in> set [''checkbox'', ''radio'']"
    by (simp_all add: boxes_only_def)
  from boxes_step_stays_array [of e n d xs, OF hd Cons.prems(2)]
  obtain ys where "serializeElement d e n = Some (Seq (xs @ ys))" by blast
  from Cons.IH [of "serializeElement d e" "xs @ ys", OF tl this] show ?case by auto
qed

lemma checked_step_first:
  assumes "el_name e = n" "n \<noteq> []" "\<not> el_disabled e" "el_type e = ''checkbox''" "el_checked e"
    and "el_value e \<noteq> []"
  shows "truthy (serializeElement d e n) \<and> (\<exists>zs. to_array (serializeElement d e n) = zs @ [el_value e])"
  using assms
  by (cases "d n" rule: truthy.cases) (auto simp: serializeElement_def Let_def)

lemma checked_step_second:
  assumes "el_name e = n" "n \<noteq> []" "\<not> el_disabled e" "el_type e = ''checkbox''" "el_checked e"
    and "truthy (d n)"
  shows "serializeElement d e n = Some (Seq (to_array (d n) @ [el_value e]))"
  using assms
  by (cases "d n" rule: truthy.cases) (auto simp: serializeElement_def Let_def)

text \<open>
  Claim C1, as amended. Let the name \<open>n\<close> end in \<open>[]\<close>. If at least one enabled
  checkbox of the form carries the name \<open>n\<close>, and every enabled control of that name is
  a checkbox or a radio button that is not checked, then \<open>serializeForm\<close> binds \<open>n\<close> to the
  empty sequence.
\<close>

theorem serializeForm_unchecked_collection:
  assumes "endsWith n ''[]''"
    and "\<exists>e \<in> set es. el_name e = n \<and> \<not> el_disabled e \<and> el_type e = ''checkbox''"
    and "\<forall>e \<in> set es. el_name e = n \<and> \<not> el_disabled e \<longrightarrow>
           el_type e \<in> set [''checkbox'', ''radio''] \<and> \<not> el_checked e"
  shows "serializeForm es n = Some (Seq [])"
  unfolding serializeForm_def
  using assms by (intro unchecked_fold_sets_empty) (simp_all add: unchecked_group_def)

theorem serializeForm_unchecked_collection_witness:
  "serializeForm [html_input ''text'' ''name'' ''Ana'' False False,
                  html_input ''checkbox'' ''skills[]'' ''cooking'' False False,
                  html_input ''checkbox'' ''skills[]'' ''driving'' False True] ''skills[]''
   = Some (Seq [])"
  by (rule serializeForm_unchecked_collection) (simp_all add: html_input_def endsWith_def)

text \<open>
  C1 as stated fails. A group whose only box is disabled never reaches the branch that
  writes the empty array, because the guard \<open>!element.disabled\<close> skips it, and the name
  stays absent. An enabled text control of the same name after the group overwrites the
  empty array with its scalar value, and a checked radio button of the same name appends
  its value to it.
\<close>

theorem serializeForm_collection_counterexample:
  "serializeForm [html_input ''checkbox'' ''skills[]'' ''cooking'' False True] ''skills[]'' = None
   \<and> serializeForm [html_input ''checkbox'' ''skills[]'' ''cooking'' False False,
                     html_input ''text'' ''skills[]'' ''other'' False False] ''skills[]''
       = Some (Scalar ''other'')
   \<and> serializeForm [html_input ''checkbox'' ''skills[]'' ''cooking'' False False,
                     html_input ''radio'' ''skills[]'' ''any'' True False] ''skills[]''
       = Some (Seq [''any''])"
  by (simp add: serializeForm_def serializeElement_def html_input_def endsWith_def)

text \<open>
  Claim C6, as amended. Let two enabled, checked checkboxes \<open>c1\<close> and \<open>c2\<close> share the
  non-empty name \<open>n\<close>, \<open>c1\<close> before \<open>c2\<close> in the form, the value of \<open>c1\<close> not empty. If every
  enabled control of that name after \<open>c1\<close> is a checkbox or a radio button, then
  \<open>serializeForm\<close> binds \<open>n\<close> to a sequence that holds the value of \<open>c1\<close> and, later, the
  value of \<open>c2\<close>.
\<close>

theorem serializeForm_two_checked:
  assumes name: "n \<noteq> []" "el_name c1 = n" "el_name c2 = n"
    and boxes: "el_type c1 = ''checkbox''" "el_type c2 = ''checkbox''"
    and checked: "el_checked c1" "el_checked c2"
    and enabled: "\<not> el_disabled c1" "\<not> el_disabled c2"
    and nonempty: "el_value c1 \<noteq> []"
    and rest: "\<forall>e \<in> set (mid @ post). el_name e = n \<and> \<not> el_disabled e \<longrightarrow>
                 el_type e \<in> set [''checkbox'', ''radio'']"
  shows "\<exists>xs. serializeForm (pre @ c1 # mid @ c2 # post) n = Some (Seq xs)
              \<and> subseq [el_value c1, el_value c2] xs"
proof -
  define d0 where "d0 = foldl serializeElement Map.empty pre"
  define d1 where "d1 = serializeElement d0 c1"
  define d2 where "d2 = foldl serializeElement d1 mid"
  define d3 where "d3 = serializeElement d2 c2"
  have fold: "serializeForm (pre @ c1 # mid @ c2 # post) = foldl serializeElement d3 post"
    by (simp add: serializeForm_def d0_def d1_def d2_def d3_def)
  from rest have bm: "boxes_only n mid" and bp: "boxes_only n post"
    by (auto simp: boxes_only_def)
  from checked_step_first [of c1 n d0] name boxes checked enabled nonempty
  obtain zs where t1: "truthy (d1 n)" and a1: "to_array (d1 n) = zs @ [el_value c1]"
    unfolding d1_def by blast
  from boxes_fold_grows [of n mid d1, OF bm t1]
  obtain ys where t2: "truthy (d2 n)" and a2: "to_array (d2 n) = to_array (d1 n) @ ys"
    unfolding d2_def by blast
  from checked_step_second [of c2 n d2] name boxes checked enabled t2
  have s3: "d3 n = Some (Seq (to_array (d2 n) @ [el_value c2]))"
    unfolding d3_def by blast
  from boxes_fold_stays_array [of n post d3, OF bp s3]
  obtain ws where fin: "foldl serializeElement d3 post n = Some (Seq ((to_array (d2 n) @ [el_value c2]) @ ws))"
    by blast
  have "subseq [el_value c1, el_value c2] (zs @ [el_value c1] @ ys @ [el_value c2] @ ws)"
    by (metis append_Cons append_Nil list_emb_append2 list_emb_prefix subseq_Cons2_iff subseq_order.eq_refl list_emb_Nil)
  with fin a1 a2 fold show ?thesis by simp
qed

theorem serializeForm_two_checked_witness:
  "\<exists>xs. serializeForm ([html_input ''text'' ''name'' ''Ana'' False False]
              @ html_input ''checkbox'' ''opt'' ''a'' True False
              # [html_input ''checkbox'' ''opt'' ''x'' False False]
              @ html_input ''checkbox'' ''opt'' ''b'' True False # []) ''opt'' = Some (Seq xs)
        \<and> subseq [''a'', ''b''] xs"
  using serializeForm_two_checked [where n = "''opt''"
      and ?c1.0 = "html_input ''checkbox'' ''opt'' ''a'' True False"
      and ?c2.0 = "html_input ''checkbox'' ''opt'' ''b'' True False"
      and mid = "[html_input ''checkbox'' ''opt'' ''x'' False False]" and post = "[]"
      and pre = "[html_input ''text'' ''name'' ''Ana'' False False]"]
  by (simp add: html_input_def)

text \<open>
  C6 as stated fails. A checked box that is disabled is skipped by the guard
  \<open>!element.disabled\<close>, so one value remains, as a scalar; and an enabled text control of
  the same name after the boxes replaces the sequence by its own value (the last one
  wins). Boxes whose shared name is the empty string are skipped by the guard
  \<open>element.name\<close>.
\<close>

theorem serializeForm_two_checked_counterexample:
  "serializeForm [html_input ''checkbox'' ''opt'' ''a'' True False,
                  html_input ''checkbox'' ''opt'' ''b'' True True] ''opt'' = Some (Scalar ''a'')
   \<and> serializeForm [html_input ''checkbox'' ''opt'' ''a'' True False,
                     html_input ''checkbox'' ''opt'' ''b'' True False,
                     html_input ''text'' ''opt'' ''c'' False False] ''opt'' = Some (Scalar ''c'')
   \<and> serializeForm [html_input ''checkbox'' [] ''a'' True False,
                     html_input ''checkbox'' [] ''b'' True False] [] = None"
  by (simp add: serializeForm_def serializeElement_def html_input_def endsWith_def)

text \<open>
  The test \<open>if (data[element.name])\<close> asks whether the value stored so far is truthy, not
  whether the name is bound. When the first checked box has the empty string as its value,
  the second box therefore takes the branch of a first occurrence and replaces it.
\<close>

lemma serializeForm_empty_first_value:
  "serializeForm [html_input ''checkbox'' ''opt'' [] True False,
                  html_input ''checkbox'' ''opt'' ''b'' True False] ''opt'' = Some (Scalar ''b'')"
  by (simp add: serializeForm_def serializeElement_def html_input_def endsWith_def)

section \<open>Properties of the gateway\<close>

lemma startsWith_iff: "startsWith s p \<longleftrightarrow> (\<exists>r. s = p @ r)"
  unfolding startsWith_def
  by (metis append_eq_conv_conj append_take_drop_id)

text \<open>A path that starts with one of the three form prefixes starts with neither
  \<open>/dashboard\<close> nor \<open>/projects\<close>, so the earlier branches of \<open>fetchData\<close> do not take it.\<close>

lemma form_prefix_not_earlier:
  assumes "startsWith ep ''/process-donation'' \<or> startsWith ep ''/process-volunteer''
           \<or> startsWith ep ''/subscribe-newsletter''"
  shows "\<not> startsWith ep ''/dashboard'' \<and> \<not> startsWith ep ''/projects''"
  using assms unfolding startsWith_iff by (auto simp: startsWith_def)

lemma fetchData_form:
  assumes "startsWith ep ''/process-donation'' \<or> startsWith ep ''/process-volunteer''
           \<or> startsWith ep ''/subscribe-newsletter''"
  shows "Utils_fetchData e ep opts = Inr form_ack"
  using form_prefix_not_earlier [OF assms] assms by (simp add: Utils_fetchData_def form_ack_def)

lemma fetchData_unmocked:
  "\<not> mocked ep \<Longrightarrow> Utils_fetchData e ep opts = Inl (Error (''Falha ao buscar dados de '' @ ep))"
  by (simp add: Utils_fetchData_def mocked_def)

lemma fetchData_rejects_only_unmocked:
  "Utils_fetchData e ep opts = Inl err \<Longrightarrow> \<not> mocked ep"
  by (auto simp: Utils_fetchData_def mocked_def Let_def split: if_splits)

lemma fetchData_resolves_with_success:
  "Utils_fetchData e ep opts = Inr r \<Longrightarrow> rs_success r"
  by (auto simp: Utils_fetchData_def Let_def split: if_splits)

lemma fetchData_mocked:
  "mocked ep \<Longrightarrow> \<exists>r. Utils_fetchData e ep opts = Inr r \<and> rs_success r"
  by (auto simp: Utils_fetchData_def mocked_def Let_def)

text \<open>
  Claim C8. For every call of the gateway whose path starts with \<open>/dashboard\<close>, the promise
  resolves with a payload whose \<open>success\<close> is true and whose \<open>data.mapData\<close> is an array of
  length at least 1 (it is the fixed array of four points).
\<close>

theorem fetchData_dashboard:
  assumes "startsWith endpoint ''/dashboard''"
  shows "\<exists>r d. Utils_fetchData e endpoint opts = Inr r \<and> rs_success r
            \<and> rs_data r = Some (DashboardData d) \<and> db_mapData d = mapData
            \<and> 1 \<le> length (db_mapData d)"
  using assms by (simp add: Utils_fetchData_def mapData_def)

theorem fetchData_dashboard_witness:
  "\<exists>r d. Utils_fetchData env0 ''/dashboard?date=2024-01-01''
            \<lparr>op_method = None, op_headers = [], op_body = None, op_params = None\<rparr> = Inr r
          \<and> rs_success r \<and> rs_data r = Some (DashboardData d) \<and> db_mapData d = mapData
          \<and> 1 \<le> length (db_mapData d)"
  by (rule fetchData_dashboard) (simp add: startsWith_def)

section \<open>Properties of the submit handlers\<close>

text \<open>\<open>DOM.createEl\<close> ignores the \<open>innerHTML\<close> option, so the indicator that
  \<open>UI.showLoading\<close> builds has no children and the lookup of its spinner gives \<open>null\<close>:
  the call raises for every control.\<close>

lemma UI_showLoading_raises:
  "UI_showLoading (Some b) =
     (Some (TypeError ''loader.querySelector(.spinner).style''), Some (b\<lparr>btn_loader := None\<rparr>))"
  by (simp add: UI_showLoading_def DOM_createEl_def querySelector_class_def Let_def)


lemma volunteer_submit_valid:
  "submitButton st = Some b \<Longrightarrow>
   volunteer_submit gw True st =
     st\<lparr>feedback := None,
        submitButton := Some \<lparr>btn_disabled = True, btn_text = ''Enviando...'', btn_loader = None\<rparr>,
        uncaught := Some (TypeError ''loader.querySelector(.spinner).style'')\<rparr>"
  by (simp add: volunteer_submit_def UI_showLoading_raises set_textContent_def Let_def)

lemma newsletter_submit_valid:
  "submitButton st = Some b \<Longrightarrow>
   find (\<lambda>e. el_inside e \<and> el_id e = ''footer-newsletter-email'') (elements st) = Some emailInput \<Longrightarrow>
   el_value emailInput \<noteq> [] \<Longrightarrow>
   newsletter_submit gw True st =
     st\<lparr>feedback := None,
        submitButton := Some (b\<lparr>btn_disabled := True, btn_loader := None\<rparr>),
        uncaught := Some (TypeError ''loader.querySelector(.spinner).style'')\<rparr>"
  by (simp add: newsletter_submit_def UI_showLoading_raises Let_def)

lemma restore_button_simps:
  "elements (restore_button t st) = elements st"
  "feedback (restore_button t st) = feedback st"
  "calls (restore_button t st) = calls st"
  "uncaught (restore_button t st) = uncaught st"
  "submitButton (restore_button t st) =
     map_option (\<lambda>b. \<lparr>btn_disabled = False, btn_text = t, btn_loader = None\<rparr>) (submitButton st)"
  by (cases "submitButton st"; simp add: restore_button_def set_textContent_def UI_hideLoading_def)+

lemma restore_button_donation:
  "shown (restore_button t st) = shown st"
  "present (restore_button t st) = present st"
  "visible (restore_button t st) = visible st"
  by (simp_all add: restore_button_def visible_def)


text \<open>Visibility of the conditional groups of the donation form.\<close>

lemma DOM_hide_simps:
  "present (DOM_hide g st) = present st"
  "elements (DOM_hide g st) = elements st"
  "submitButton (DOM_hide g st) = submitButton st"
  "feedback (DOM_hide g st) = feedback st"
  "calls (DOM_hide g st) = calls st"
  "visible (DOM_hide g st) = visible st - {g}"
  by (auto simp: DOM_hide_def visible_def)

lemma DOM_show_simps:
  "present (DOM_show g st) = present st"
  "elements (DOM_show g st) = elements st"
  "submitButton (DOM_show g st) = submitButton st"
  "feedback (DOM_show g st) = feedback st"
  "calls (DOM_show g st) = calls st"
  "visible (DOM_show g st) = visible st \<union> ({g} \<inter> present st)"
  by (auto simp: DOM_show_def visible_def)

lemma toggle_simps:
  "present (toggleDonationFields v st) = present st"
  "elements (toggleDonationFields v st) = elements st"
  "submitButton (toggleDonationFields v st) = submitButton st"
  "feedback (toggleDonationFields v st) = feedback st"
  "calls (toggleDonationFields v st) = calls st"
  by (simp_all add: toggleDonationFields_def Let_def DOM_hide_simps DOM_show_simps)

lemma visible_hide_all:
  "visible (DOM_hide PixDetails (DOM_hide PaymentGroup (DOM_hide GoodsFields (DOM_hide MoneyFields st)))) = {}"
proof -
  have "g \<notin> visible st - {MoneyFields} - {GoodsFields} - {PaymentGroup} - {PixDetails}" for g
    by (cases g) simp_all
  then show ?thesis by (auto simp: DOM_hide_simps)
qed

lemma visible_toggle:
  "visible (toggleDonationFields v st) = shown_for v (elements st) \<inter> present st"
proof -
  define st1 where "st1 = DOM_hide PixDetails (DOM_hide PaymentGroup (DOM_hide GoodsFields (DOM_hide MoneyFields st)))"
  have v1: "visible st1 = {}"
    unfolding st1_def by (rule visible_hide_all)
  have p1: "present st1 = present st" and e1: "elements st1 = elements st"
    unfolding st1_def by (simp_all add: DOM_hide_simps)
  consider (money) "v = ''money''" | (goods) "v = ''goods''" | (time) "v = ''time''"
    | (other) "v \<noteq> ''money''" "v \<noteq> ''goods''" "v \<noteq> ''time''" by blast
  then show ?thesis
  proof cases
    case money
    define st2 where "st2 = DOM_show PaymentGroup (DOM_show MoneyFields st1)"
    have v2: "visible st2 = {MoneyFields, PaymentGroup} \<inter> present st"
      and p2: "present st2 = present st" and e2: "elements st2 = elements st"
      unfolding st2_def using v1 p1 e1 by (auto simp: DOM_show_simps)
    have "toggleDonationFields v st =
        (if find (\<lambda>e. el_value e = ''pix'') (qsa_checked ''payment_method'' (elements st2)) \<noteq> None
            \<and> PixDetails \<in> present st2 then DOM_show PixDetails st2 else st2)"
      using money by (simp add: toggleDonationFields_def Let_def st1_def st2_def)
    then show ?thesis using v2 p2 e2 money
      by (auto simp: DOM_show_simps shown_for_def)
  next
    case goods
    then have "toggleDonationFields v st = DOM_show GoodsFields st1"
      by (simp add: toggleDonationFields_def Let_def st1_def)
    then show ?thesis using v1 p1 goods by (auto simp: DOM_show_simps shown_for_def)
  next
    case time
    then have "visible (toggleDonationFields v st) = visible st1"
      by (simp add: toggleDonationFields_def Let_def st1_def visible_def)
    then show ?thesis using v1 time by (simp add: shown_for_def)
  next
    case other
    then have "toggleDonationFields v st = st1"
      by (simp add: toggleDonationFields_def Let_def st1_def)
    then show ?thesis using v1 other by (simp add: shown_for_def)
  qed
qed


lemma visible_present: "g \<in> visible st \<Longrightarrow> g \<in> present st"
  by (simp add: visible_def)

lemma visible_hide_pix_if:
  "visible (if PixDetails \<in> present st \<and> c then DOM_hide PixDetails st else st) =
     visible st - (if c then {PixDetails} else {})"
  using visible_present [of PixDetails st] by (auto simp: DOM_hide_simps)

lemma visible_init:
  assumes "initDonationForm page = Inr (cl, st0)" "truthy_string (initialDonationType cl)"
  shows "\<exists>v. initialDonationType cl = Some v \<and>
     visible st0 = (shown_for v (elements page) \<inter> present page)
        - (if initialPayment cl \<noteq> Some ''pix'' then {PixDetails} else {})"
    and "initialDonationType cl = checked_value ''donation_type'' (elements page)"
    and "initialPayment cl = checked_value ''payment_method'' (elements page)"
proof -
  from assms(1) have idt: "initialDonationType cl = checked_value ''donation_type'' (elements page)"
    by (auto simp: initDonationForm_def Let_def split: option.splits if_splits)
  with assms(2) obtain v where v: "checked_value ''donation_type'' (elements page) = Some v"
    by (auto simp: truthy_string_def split: option.splits)
  define st1 where "st1 = toggleDonationFields v page"
  have e1: "elements st1 = elements page" and p1: "present st1 = present page"
    and v1: "visible st1 = shown_for v (elements page) \<inter> present page"
    unfolding st1_def by (simp_all add: toggle_simps visible_toggle)
  from assms idt v have ip: "initialPayment cl = checked_value ''payment_method'' (elements page)"
    by (auto simp: initDonationForm_def Let_def toggle_simps split: option.splits if_splits)
  from assms idt v have st0: "st0 = (if PixDetails \<in> present st1 \<and> initialPayment cl \<noteq> Some ''pix''
      then DOM_hide PixDetails st1 else st1)"
    by (auto simp: initDonationForm_def Let_def st1_def toggle_simps split: option.splits if_splits)
  have "visible st0 = (shown_for v (elements page) \<inter> present page)
        - (if initialPayment cl \<noteq> Some ''pix'' then {PixDetails} else {})"
    unfolding st0 visible_hide_pix_if using v1 by simp
  with idt v show "\<exists>v. initialDonationType cl = Some v \<and>
     visible st0 = (shown_for v (elements page) \<inter> present page)
        - (if initialPayment cl \<noteq> Some ''pix'' then {PixDetails} else {})" by simp
  show "initialDonationType cl = checked_value ''donation_type'' (elements page)" by (rule idt)
  show "initialPayment cl = checked_value ''payment_method'' (elements page)" by (rule ip)
qed

lemma visible_success:
  assumes "initialDonationType cl = Some v" "truthy_string (initialDonationType cl)"
  shows "visible (donation_success response cl st) =
     (shown_for v (form_reset (elements st)) \<inter> present st)
        - (if initialPayment cl \<noteq> Some ''pix'' then {PixDetails} else {})"
proof -
  define st3 where "st3 = (UI_displayFeedback
                  (message_or (rs_message response) (''Doa'' @ [CHR 0xE7, CHR 0xE3] @ ''o processada com sucesso!''))
                  ''success'' st)\<lparr>elements := form_reset (elements st)\<rparr>"
  define st5 where "st5 = (toggleDonationFields v st3)\<lparr>presetActive := map (\<lambda>_. False) (presetActive (toggleDonationFields v st3))\<rparr>"
  have e3: "elements st3 = form_reset (elements st)" and p3: "present st3 = present st"
    by (simp_all add: st3_def UI_displayFeedback_def)
  have p5: "present st5 = present st" and v5: "visible st5 = shown_for v (form_reset (elements st)) \<inter> present st"
    using visible_toggle [of v st3] e3 p3
    by (simp_all add: st5_def toggle_simps visible_def)
  have "donation_success response cl st =
     (if PixDetails \<in> present st5 \<and> initialPayment cl \<noteq> Some ''pix'' then DOM_hide PixDetails st5 else st5)"
    using assms by (simp add: donation_success_def Let_def st3_def st5_def UI_displayFeedback_def)
  then show ?thesis using v5 by (simp only: visible_hide_pix_if)
qed

lemma submitDonation_resolved:
  assumes "gw ''/process-donation'' (post_options formData) = Inr response" "rs_success response"
  shows "submitDonation gw formData st =
     (Inr response, st\<lparr>calls := calls st @ [(''/process-donation'', post_options formData)]\<rparr>)"
  using assms by (simp add: submitDonation_def Let_def)

lemma submitDonation_rejected:
  assumes "gw ''/process-donation'' (post_options formData) = Inl error"
  shows "submitDonation gw formData st =
     (Inl error, st\<lparr>calls := calls st @ [(''/process-donation'', post_options formData)]\<rparr>)"
  using assms by (simp add: submitDonation_def Let_def)

lemma donation_try_resolved:
  assumes "gw ''/process-donation'' (post_options (serializeForm (form_elements (elements st)))) = Inr response"
    "rs_success response"
  shows "donation_try gw cl t st = restore_button t (donation_success response cl
      (st\<lparr>calls := calls st @ [(''/process-donation'', post_options (serializeForm (form_elements (elements st))))]\<rparr>))"
  using submitDonation_resolved [of gw "serializeForm (form_elements (elements st))" response st] assms
  by (simp add: donation_try_def Let_def)

lemma donation_try_rejected:
  assumes "gw ''/process-donation'' (post_options (serializeForm (form_elements (elements st)))) = Inl error"
  shows "donation_try gw cl t st = restore_button t
      (UI_displayFeedback ((''Erro ao processar doa'' @ [CHR 0xE7, CHR 0xE3] @ ''o: '') @ err_message error) ''error''
         (st\<lparr>calls := calls st @ [(''/process-donation'', post_options (serializeForm (form_elements (elements st))))]\<rparr>))"
  using submitDonation_rejected [of gw "serializeForm (form_elements (elements st))" error st] assms
  by (simp add: donation_try_def Let_def)


lemmas sample_defs = loaded_def goods_picked_def goods_chosen_def donation_page_def html_input_def
  tied_input_def html_button_def busy_button_def env0_def

lemmas handler_defs = initDonationForm_def donationTypeChange_def paymentMethodChange_def
  toggleDonationFields_def DOM_hide_def DOM_show_def checked_value_def qsa_checked_def
  truthy_string_def pick_radio_def set_textContent_def visible_def Let_def

lemmas try_defs = donation_try_def donation_success_def submitDonation_def Utils_fetchData_def
  startsWith_def post_options_def restore_button_def UI_displayFeedback_def UI_hideLoading_def
  message_or_def form_reset_def form_elements_def

text \<open>
  The success branch re-applies the initial configuration when it runs. Take a page on
  which \<open>initDonationForm\<close> returns with a donation type of non-empty value checked, and
  any later state of that page in which the same conditional groups exist and whose
  controls return to their load-time state on \<open>form.reset()\<close>. If the \<open>try\<close> statement runs
  from that state and the facade call resolves with \<open>success\<close>, the groups visible
  afterwards are those that were visible when \<open>initDonationForm\<close> had run.
\<close>

lemma donation_try_restores_visibility:
  assumes "initDonationForm page = Inr (cl, st0)"
    and "truthy_string (initialDonationType cl)"
    and "form_reset (elements st) = elements page"
    and "present st = present page"
    and "gw ''/process-donation'' (post_options (serializeForm (form_elements (elements st)))) = Inr response"
    and "rs_success response"
  shows "visible (donation_try gw cl originalButtonText st) = visible st0"
proof -
  from visible_init(1) [of page cl st0] assms(1,2) obtain v where v: "initialDonationType cl = Some v"
    and v0: "visible st0 = (shown_for v (elements page) \<inter> present page)
        - (if initialPayment cl \<noteq> Some ''pix'' then {PixDetails} else {})" by blast
  have "visible (donation_try gw cl originalButtonText st) =
      visible (donation_success response cl
        (st\<lparr>calls := calls st @ [(''/process-donation'', post_options (serializeForm (form_elements (elements st))))]\<rparr>))"
    using donation_try_resolved [of gw st response cl originalButtonText] assms(5,6)
    by (simp add: restore_button_donation)
  also have "\<dots> = (shown_for v (elements page) \<inter> present page)
        - (if initialPayment cl \<noteq> Some ''pix'' then {PixDetails} else {})"
    using visible_success [of cl v response
        "st\<lparr>calls := calls st @ [(''/process-donation'', post_options (serializeForm (form_elements (elements st))))]\<rparr>"]
      v assms(2,3,4) by (simp del: if_split cong: if_cong)
  finally show ?thesis using v0 by simp
qed


section \<open>The three pipelines against an arbitrary gateway\<close>

lemma donation_success_simps:
  "submitButton (donation_success response cl st) = submitButton st"
  "calls (donation_success response cl st) = calls st"
  "elements (donation_success response cl st) = form_reset (elements st)"
  "feedback (donation_success response cl st) =
     Some \<lparr>nt_type = ''success'',
           nt_message = message_or (rs_message response) (''Doa'' @ [CHR 0xE7, CHR 0xE3] @ ''o processada com sucesso!'')\<rparr>"
  by (simp_all add: donation_success_def Let_def UI_displayFeedback_def toggle_simps DOM_hide_simps
        split: option.splits)

lemma submitVolunteerForm_resolved:
  assumes "gw ''/process-volunteer'' (post_options formData) = Inr response" "rs_success response"
  shows "submitVolunteerForm gw formData st =
     (Inr response, st\<lparr>calls := calls st @ [(''/process-volunteer'', post_options formData)]\<rparr>)"
  using assms by (simp add: submitVolunteerForm_def Let_def)

lemma submitVolunteerForm_rejected:
  assumes "gw ''/process-volunteer'' (post_options formData) = Inl error"
  shows "submitVolunteerForm gw formData st =
     (Inl error, st\<lparr>calls := calls st @ [(''/process-volunteer'', post_options formData)]\<rparr>)"
  using assms by (simp add: submitVolunteerForm_def Let_def)

lemma submitNewsletter_resolved:
  assumes "gw ''/subscribe-newsletter'' (post_options [''email'' \<mapsto> Scalar email]) = Inr response"
    "rs_success response"
  shows "submitNewsletter gw email st =
     (Inr response,
      st\<lparr>calls := calls st @ [(''/subscribe-newsletter'', post_options [''email'' \<mapsto> Scalar email])]\<rparr>)"
  using assms by (simp add: submitNewsletter_def Let_def)

lemma submitNewsletter_rejected:
  assumes "gw ''/subscribe-newsletter'' (post_options [''email'' \<mapsto> Scalar email]) = Inl error"
  shows "submitNewsletter gw email st =
     (Inl error,
      st\<lparr>calls := calls st @ [(''/subscribe-newsletter'', post_options [''email'' \<mapsto> Scalar email])]\<rparr>)"
  using assms by (simp add: submitNewsletter_def Let_def)


lemma facade_state:
  "submitButton (snd (submitDonation gw formData st)) = submitButton st"
  "submitButton (snd (submitVolunteerForm gw formData st)) = submitButton st"
  "submitButton (snd (submitNewsletter gw email st)) = submitButton st"
  "elements (snd (submitDonation gw formData st)) = elements st"
  "elements (snd (submitVolunteerForm gw formData st)) = elements st"
  "elements (snd (submitNewsletter gw email st)) = elements st"
  by (simp_all add: submitDonation_def submitVolunteerForm_def submitNewsletter_def Let_def
        split: sum.splits)

text \<open>The \<open>finally\<close> block runs on both paths: whatever the gateway answers, the \<open>try\<close>
  statement leaves the submit button enabled, with the text it is given and without a
  loading indicator.\<close>

lemma donation_try_button:
  "submitButton (donation_try gw cl t st) =
     map_option (\<lambda>b. \<lparr>btn_disabled = False, btn_text = t, btn_loader = None\<rparr>) (submitButton st)"
proof -
  obtain res st1 where r: "submitDonation gw (serializeForm (form_elements (elements st))) st = (res, st1)"
    by (cases "submitDonation gw (serializeForm (form_elements (elements st))) st")
  with facade_state(1) [of gw "serializeForm (form_elements (elements st))" st] have "submitButton st1 = submitButton st"
    by simp
  with r show ?thesis
    by (cases res) (simp_all add: donation_try_def Let_def restore_button_simps
        donation_success_simps UI_displayFeedback_def)
qed

lemma volunteer_try_button:
  "submitButton (volunteer_try gw t st) =
     map_option (\<lambda>b. \<lparr>btn_disabled = False, btn_text = t, btn_loader = None\<rparr>) (submitButton st)"
proof -
  let ?fd = "(serializeForm (form_elements (elements st)))(''skills'' \<mapsto>
       Seq (map el_value (qsa_checked ''skills[]'' (elements st))))"
  obtain res st1 where r: "submitVolunteerForm gw ?fd st = (res, st1)"
    by (cases "submitVolunteerForm gw ?fd st")
  with facade_state(2) [of gw ?fd st] have "submitButton st1 = submitButton st"
    by simp
  with r show ?thesis
    by (cases res) (simp_all add: volunteer_try_def Let_def restore_button_simps UI_displayFeedback_def)
qed

lemma newsletter_try_button:
  "submitButton (newsletter_try gw email t st) =
     map_option (\<lambda>b. \<lparr>btn_disabled = False, btn_text = t, btn_loader = None\<rparr>) (submitButton st)"
proof -
  obtain res st1 where r: "submitNewsletter gw email st = (res, st1)"
    by (cases "submitNewsletter gw email st")
  with facade_state(3) [of gw email st] have "submitButton st1 = submitButton st"
    by simp
  with r show ?thesis
    by (cases res) (simp_all add: newsletter_try_def Let_def restore_button_simps UI_displayFeedback_def)
qed

text \<open>The notice that each \<open>try\<close> statement leaves when the gateway rejects, and when it
  resolves with \<open>success\<close>.\<close>

lemma donation_try_feedback_rejected:
  assumes "gw ''/process-donation'' (post_options (serializeForm (form_elements (elements st)))) = Inl error"
  shows "feedback (donation_try gw cl t st) =
     Some \<lparr>nt_type = ''error'', nt_message = (''Erro ao processar doa'' @ [CHR 0xE7, CHR 0xE3] @ ''o: '') @ err_message error\<rparr>"
  using donation_try_rejected [of gw st error cl t] assms
  by (simp add: restore_button_simps UI_displayFeedback_def)

lemma donation_try_feedback_resolved:
  assumes "gw ''/process-donation'' (post_options (serializeForm (form_elements (elements st)))) = Inr response"
    "rs_success response"
  shows "feedback (donation_try gw cl t st) =
     Some \<lparr>nt_type = ''success'',
           nt_message = message_or (rs_message response) (''Doa'' @ [CHR 0xE7, CHR 0xE3] @ ''o processada com sucesso!'')\<rparr>"
  using donation_try_resolved [of gw st response cl t] assms
  by (simp add: restore_button_simps donation_success_simps)

lemma volunteer_try_feedback_rejected:
  assumes "gw ''/process-volunteer'' (post_options ((serializeForm (form_elements (elements st)))(''skills'' \<mapsto>
       Seq (map el_value (qsa_checked ''skills[]'' (elements st)))))) = Inl error"
  shows "feedback (volunteer_try gw t st) =
     Some \<lparr>nt_type = ''error'', nt_message = (''Erro ao enviar inscri'' @ [CHR 0xE7, CHR 0xE3] @ ''o: '') @ err_message error\<rparr>"
  using submitVolunteerForm_rejected [of gw "(serializeForm (form_elements (elements st)))(''skills'' \<mapsto>
       Seq (map el_value (qsa_checked ''skills[]'' (elements st))))" error st] assms
  by (simp add: volunteer_try_def Let_def restore_button_simps UI_displayFeedback_def)

lemma volunteer_try_feedback_resolved:
  assumes "gw ''/process-volunteer'' (post_options ((serializeForm (form_elements (elements st)))(''skills'' \<mapsto>
       Seq (map el_value (qsa_checked ''skills[]'' (elements st)))))) = Inr response"
    "rs_success response"
  shows "feedback (volunteer_try gw t st) =
     Some \<lparr>nt_type = ''success'',
           nt_message = message_or (rs_message response)
             (''Inscri'' @ [CHR 0xE7, CHR 0xE3] @ ''o enviada com sucesso! Entraremos em contato.'')\<rparr>"
  using submitVolunteerForm_resolved [of gw "(serializeForm (form_elements (elements st)))(''skills'' \<mapsto>
       Seq (map el_value (qsa_checked ''skills[]'' (elements st))))" response st] assms
  by (simp add: volunteer_try_def Let_def restore_button_simps UI_displayFeedback_def)

lemma newsletter_try_feedback_rejected:
  assumes "gw ''/subscribe-newsletter'' (post_options [''email'' \<mapsto> Scalar email]) = Inl error"
  shows "feedback (newsletter_try gw email t st) =
     Some \<lparr>nt_type = ''error'', nt_message = (''Erro na inscri'' @ [CHR 0xE7, CHR 0xE3] @ ''o: '') @ err_message error\<rparr>"
  using submitNewsletter_rejected [of gw email error st] assms
  by (simp add: newsletter_try_def Let_def restore_button_simps UI_displayFeedback_def)

lemma newsletter_try_feedback_resolved:
  assumes "gw ''/subscribe-newsletter'' (post_options [''email'' \<mapsto> Scalar email]) = Inr response"
    "rs_success response"
  shows "feedback (newsletter_try gw email t st) =
     Some \<lparr>nt_type = ''success'',
           nt_message = message_or (rs_message response) (''Inscri'' @ [CHR 0xE7, CHR 0xE3] @ ''o realizada com sucesso!'')\<rparr>"
  using submitNewsletter_resolved [of gw email response st] assms
  by (simp add: newsletter_try_def Let_def restore_button_simps UI_displayFeedback_def)

section \<open>Rejections of the gateway and the form pipelines\<close>

text \<open>
  Claim C7. For every path that starts with none of the five mocked prefixes, the gateway
  rejects with the error whose message is \<open>Falha ao buscar dados de\<close> followed by the
  path, which is not empty. When the \<open>try\<close> statement of a form pipeline receives that
  rejection from the facade, it leaves an \<open>error\<close> notice that holds this message after
  the prefix of the form, and the \<open>finally\<close> block leaves the submit button enabled.
\<close>

theorem unmocked_endpoint_rejection_reported:
  assumes "\<not> mocked endpoint"
  shows "Utils_fetchData e endpoint opts = Inl (Error (''Falha ao buscar dados de '' @ endpoint))
    \<and> err_message (Error (''Falha ao buscar dados de '' @ endpoint)) \<noteq> []
    \<and> feedback (donation_try (gateway_at e endpoint) cl t st) =
        Some \<lparr>nt_type = ''error'',
              nt_message = (''Erro ao processar doa'' @ [CHR 0xE7, CHR 0xE3] @ ''o: '') @ ''Falha ao buscar dados de '' @ endpoint\<rparr>
    \<and> submitButton (donation_try (gateway_at e endpoint) cl t st) =
        map_option (\<lambda>b. \<lparr>btn_disabled = False, btn_text = t, btn_loader = None\<rparr>) (submitButton st)
    \<and> feedback (volunteer_try (gateway_at e endpoint) t vst) =
        Some \<lparr>nt_type = ''error'',
              nt_message = (''Erro ao enviar inscri'' @ [CHR 0xE7, CHR 0xE3] @ ''o: '') @ ''Falha ao buscar dados de '' @ endpoint\<rparr>
    \<and> submitButton (volunteer_try (gateway_at e endpoint) t vst) =
        map_option (\<lambda>b. \<lparr>btn_disabled = False, btn_text = t, btn_loader = None\<rparr>) (submitButton vst)
    \<and> feedback (newsletter_try (gateway_at e endpoint) email t nst) =
        Some \<lparr>nt_type = ''error'',
              nt_message = (''Erro na inscri'' @ [CHR 0xE7, CHR 0xE3] @ ''o: '') @ ''Falha ao buscar dados de '' @ endpoint\<rparr>
    \<and> submitButton (newsletter_try (gateway_at e endpoint) email t nst) =
        map_option (\<lambda>b. \<lparr>btn_disabled = False, btn_text = t, btn_loader = None\<rparr>) (submitButton nst)"
proof -
  have rej: "gateway_at e endpoint p q = Inl (Error (''Falha ao buscar dados de '' @ endpoint))" for p q
    using assms by (simp add: gateway_at_def fetchData_unmocked)
  have d: "feedback (donation_try (gateway_at e endpoint) cl t st) =
        Some \<lparr>nt_type = ''error'',
              nt_message = (''Erro ao processar doa'' @ [CHR 0xE7, CHR 0xE3] @ ''o: '') @ ''Falha ao buscar dados de '' @ endpoint\<rparr>"
    using donation_try_feedback_rejected [of "gateway_at e endpoint" st _ cl t] rej by simp
  have v: "feedback (volunteer_try (gateway_at e endpoint) t vst) =
        Some \<lparr>nt_type = ''error'',
              nt_message = (''Erro ao enviar inscri'' @ [CHR 0xE7, CHR 0xE3] @ ''o: '') @ ''Falha ao buscar dados de '' @ endpoint\<rparr>"
    using volunteer_try_feedback_rejected [of "gateway_at e endpoint" vst _ t] rej by simp
  have n: "feedback (newsletter_try (gateway_at e endpoint) email t nst) =
        Some \<lparr>nt_type = ''error'',
              nt_message = (''Erro na inscri'' @ [CHR 0xE7, CHR 0xE3] @ ''o: '') @ ''Falha ao buscar dados de '' @ endpoint\<rparr>"
    using newsletter_try_feedback_rejected [of "gateway_at e endpoint" email _ t nst] rej by simp
  from assms have g: "Utils_fetchData e endpoint opts = Inl (Error (''Falha ao buscar dados de '' @ endpoint))"
    by (rule fetchData_unmocked)
  show ?thesis
    using g d v n by (simp add: donation_try_button volunteer_try_button newsletter_try_button)
qed

theorem unmocked_endpoint_rejection_reported_witness:
  "\<not> mocked ''/unknown''
   \<and> Utils_fetchData env0 ''/unknown'' (post_options Map.empty)
      = Inl (Error (''Falha ao buscar dados de '' @ ''/unknown''))
   \<and> feedback (donation_try (gateway_at env0 ''/unknown'') (fst (loaded (Some ''money'') (Some ''card'')))
         ''Enviar'' (goods_picked (Some ''money'') (Some ''card''))) =
        Some \<lparr>nt_type = ''error'',
              nt_message = (''Erro ao processar doa'' @ [CHR 0xE7, CHR 0xE3] @ ''o: '') @ ''Falha ao buscar dados de '' @ ''/unknown''\<rparr>
   \<and> submitButton (donation_try (gateway_at env0 ''/unknown'') (fst (loaded (Some ''money'') (Some ''card'')))
         ''Enviar'' (goods_picked (Some ''money'') (Some ''card''))) =
        Some \<lparr>btn_disabled = False, btn_text = ''Enviar'', btn_loader = None\<rparr>
   \<and> feedback (volunteer_try (gateway_at env0 ''/unknown'') ''Enviar'' (volunteer_form True False True)) =
        Some \<lparr>nt_type = ''error'',
              nt_message = (''Erro ao enviar inscri'' @ [CHR 0xE7, CHR 0xE3] @ ''o: '') @ ''Falha ao buscar dados de '' @ ''/unknown''\<rparr>
   \<and> submitButton (volunteer_try (gateway_at env0 ''/unknown'') ''Enviar'' (volunteer_form True False True)) =
        Some \<lparr>btn_disabled = False, btn_text = ''Enviar'', btn_loader = None\<rparr>
   \<and> feedback (newsletter_try (gateway_at env0 ''/unknown'') ''ana@example.org'' ''Enviar'' newsletter_form) =
        Some \<lparr>nt_type = ''error'',
              nt_message = (''Erro na inscri'' @ [CHR 0xE7, CHR 0xE3] @ ''o: '') @ ''Falha ao buscar dados de '' @ ''/unknown''\<rparr>
   \<and> submitButton (newsletter_try (gateway_at env0 ''/unknown'') ''ana@example.org'' ''Enviar'' newsletter_form) =
        Some \<lparr>btn_disabled = False, btn_text = ''Enviar'', btn_loader = None\<rparr>"
proof -
  have h: "\<not> mocked ''/unknown''"
    by (simp add: mocked_def startsWith_def)
  have b: "submitButton (goods_picked (Some ''money'') (Some ''card''))
      = Some \<lparr>btn_disabled = True, btn_text = ''Processando...'', btn_loader = None\<rparr>"
    "submitButton (volunteer_form True False True) = Some (html_button ''Enviar'')"
    "submitButton newsletter_form = Some (html_button ''Assinar'')"
    by (simp_all add: sample_defs handler_defs volunteer_form_def newsletter_form_def)
  show ?thesis
    using h unmocked_endpoint_rejection_reported
      [OF h, where e = env0 and opts = "post_options Map.empty"
         and cl = "fst (loaded (Some ''money'') (Some ''card''))" and t = "''Enviar''"
         and st = "goods_picked (Some ''money'') (Some ''card'')"
         and vst = "volunteer_form True False True" and email = "''ana@example.org''"
         and nst = newsletter_form]
    by (simp add: b)
qed

text \<open>
  Claim C10. For every path that starts with \<open>/process-donation\<close>, \<open>/process-volunteer\<close> or
  \<open>/subscribe-newsletter\<close> the gateway resolves with \<open>success\<close> true. So the three facade
  functions, run against the gateway, return that answer and never reach their \<open>throw\<close>;
  the gateway rejects only a path that is not mocked and never resolves with \<open>success\<close>
  false; and the \<open>try\<close> statement of a form leaves an \<open>error\<close> notice exactly when the
  path its request goes to is not mocked.
\<close>

theorem form_endpoints_always_resolve:
  "(startsWith endpoint ''/process-donation'' \<or> startsWith endpoint ''/process-volunteer''
      \<or> startsWith endpoint ''/subscribe-newsletter''
      \<longrightarrow> Utils_fetchData e endpoint opts = Inr form_ack)
   \<and> fst (submitDonation (Utils_fetchData e) formData st) = Inr form_ack
   \<and> fst (submitVolunteerForm (Utils_fetchData e) formData vst) = Inr form_ack
   \<and> fst (submitNewsletter (Utils_fetchData e) email nst) = Inr form_ack
   \<and> (\<forall>err. Utils_fetchData e endpoint opts = Inl err \<longrightarrow> \<not> mocked endpoint)
   \<and> (\<forall>r. Utils_fetchData e endpoint opts = Inr r \<longrightarrow> rs_success r)
   \<and> ((\<exists>m. feedback (donation_try (gateway_at e endpoint) cl t dst)
              = Some \<lparr>nt_type = ''error'', nt_message = m\<rparr>) \<longleftrightarrow> \<not> mocked endpoint)
   \<and> ((\<exists>m. feedback (volunteer_try (gateway_at e endpoint) t vst)
              = Some \<lparr>nt_type = ''error'', nt_message = m\<rparr>) \<longleftrightarrow> \<not> mocked endpoint)
   \<and> ((\<exists>m. feedback (newsletter_try (gateway_at e endpoint) email t nst)
              = Some \<lparr>nt_type = ''error'', nt_message = m\<rparr>) \<longleftrightarrow> \<not> mocked endpoint)"
proof -
  have ack: "rs_success form_ack" by (simp add: form_ack_def)
  have a: "Utils_fetchData e ''/process-donation'' q = Inr form_ack"
    and b: "Utils_fetchData e ''/process-volunteer'' q = Inr form_ack"
    and c: "Utils_fetchData e ''/subscribe-newsletter'' q = Inr form_ack" for q
    by (rule fetchData_form, simp add: startsWith_def)+
  have f1: "fst (submitDonation (Utils_fetchData e) formData st) = Inr form_ack"
    using submitDonation_resolved [of "Utils_fetchData e" formData form_ack st] a ack by simp
  have f2: "fst (submitVolunteerForm (Utils_fetchData e) formData vst) = Inr form_ack"
    using submitVolunteerForm_resolved [of "Utils_fetchData e" formData form_ack vst] b ack by simp
  have f3: "fst (submitNewsletter (Utils_fetchData e) email nst) = Inr form_ack"
    using submitNewsletter_resolved [of "Utils_fetchData e" email form_ack nst] c ack by simp
  have pipes: "((\<exists>m. feedback (donation_try (gateway_at e endpoint) cl t dst)
              = Some \<lparr>nt_type = ''error'', nt_message = m\<rparr>) \<longleftrightarrow> \<not> mocked endpoint)
   \<and> ((\<exists>m. feedback (volunteer_try (gateway_at e endpoint) t vst)
              = Some \<lparr>nt_type = ''error'', nt_message = m\<rparr>) \<longleftrightarrow> \<not> mocked endpoint)
   \<and> ((\<exists>m. feedback (newsletter_try (gateway_at e endpoint) email t nst)
              = Some \<lparr>nt_type = ''error'', nt_message = m\<rparr>) \<longleftrightarrow> \<not> mocked endpoint)"
  proof (cases "mocked endpoint")
    case True
    from fetchData_mocked [OF True] have "\<forall>q. \<exists>r. gateway_at e endpoint p q = Inr r \<and> rs_success r" for p
      by (simp add: gateway_at_def)
    then obtain r1 r2 r3 where
      r1: "gateway_at e endpoint ''/process-donation'' (post_options (serializeForm (form_elements (elements dst)))) = Inr r1"
        "rs_success r1"
      and r2: "gateway_at e endpoint ''/process-volunteer''
          (post_options ((serializeForm (form_elements (elements vst)))(''skills'' \<mapsto>
             Seq (map el_value (qsa_checked ''skills[]'' (elements vst)))))) = Inr r2" "rs_success r2"
      and r3: "gateway_at e endpoint ''/subscribe-newsletter''
          (post_options [''email'' \<mapsto> Scalar email]) = Inr r3" "rs_success r3"
      by metis
    show ?thesis
      using True donation_try_feedback_resolved [of "gateway_at e endpoint" dst r1 cl t]
        volunteer_try_feedback_resolved [of "gateway_at e endpoint" vst r2 t]
        newsletter_try_feedback_resolved [of "gateway_at e endpoint" email r3 t nst] r1 r2 r3
      by simp
  next
    case False
    have rej: "gateway_at e endpoint p q = Inl (Error (''Falha ao buscar dados de '' @ endpoint))" for p q
      using False by (simp add: gateway_at_def fetchData_unmocked)
    show ?thesis
      using False donation_try_feedback_rejected [of "gateway_at e endpoint" dst _ cl t]
        volunteer_try_feedback_rejected [of "gateway_at e endpoint" vst _ t]
        newsletter_try_feedback_rejected [of "gateway_at e endpoint" email _ t nst] rej
      by simp
  qed
  show ?thesis
    using f1 f2 f3 pipes fetchData_form [of endpoint e opts]
      fetchData_rejects_only_unmocked [of e endpoint opts]
      fetchData_resolves_with_success [of e endpoint opts]
    by blast
qed

theorem form_endpoints_always_resolve_witness:
  "Utils_fetchData env0 ''/process-donation?x=1'' (post_options Map.empty) = Inr form_ack
   \<and> fst (submitDonation (Utils_fetchData env0) [''amount'' \<mapsto> Scalar ''50'']
            (goods_picked (Some ''money'') (Some ''card''))) = Inr form_ack
   \<and> fst (submitVolunteerForm (Utils_fetchData env0) [''amount'' \<mapsto> Scalar ''50'']
            (volunteer_form True False True)) = Inr form_ack
   \<and> fst (submitNewsletter (Utils_fetchData env0) ''ana@example.org'' newsletter_form) = Inr form_ack
   \<and> \<not> mocked ''/unknown''
   \<and> rs_success form_ack
   \<and> (\<exists>m. feedback (donation_try (gateway_at env0 ''/unknown'')
                 (fst (loaded (Some ''money'') (Some ''card''))) ''Doar''
                 (goods_picked (Some ''money'') (Some ''card'')))
             = Some \<lparr>nt_type = ''error'', nt_message = m\<rparr>)
   \<and> \<not> (\<exists>m. feedback (donation_try (gateway_at env0 ''/process-donation?x=1'')
                 (fst (loaded (Some ''money'') (Some ''card''))) ''Doar''
                 (goods_picked (Some ''money'') (Some ''card'')))
             = Some \<lparr>nt_type = ''error'', nt_message = m\<rparr>)"
proof -
  have p: "startsWith ''/process-donation?x=1'' ''/process-donation''"
    by (simp add: startsWith_def)
  then have m: "mocked ''/process-donation?x=1''"
    by (simp add: mocked_def)
  have rej: "Utils_fetchData env0 ''/unknown'' (post_options Map.empty)
      = Inl (Error ''Falha ao buscar dados de /unknown'')"
    by (simp add: Utils_fetchData_def startsWith_def)
  note at_form = form_endpoints_always_resolve
      [where endpoint = "''/process-donation?x=1''" and e = env0 and opts = "post_options Map.empty"
         and formData = "[''amount'' \<mapsto> Scalar ''50'']"
         and st = "goods_picked (Some ''money'') (Some ''card'')"
         and vst = "volunteer_form True False True" and email = "''ana@example.org''"
         and nst = newsletter_form and cl = "fst (loaded (Some ''money'') (Some ''card''))"
         and t = "''Doar''" and dst = "goods_picked (Some ''money'') (Some ''card'')"]
  note at_unknown = form_endpoints_always_resolve
      [where endpoint = "''/unknown''" and e = env0 and opts = "post_options Map.empty"
         and formData = "[''amount'' \<mapsto> Scalar ''50'']"
         and st = "goods_picked (Some ''money'') (Some ''card'')"
         and vst = "volunteer_form True False True" and email = "''ana@example.org''"
         and nst = newsletter_form and cl = "fst (loaded (Some ''money'') (Some ''card''))"
         and t = "''Doar''" and dst = "goods_picked (Some ''money'') (Some ''card'')"]
  from at_unknown rej have u: "\<not> mocked ''/unknown''"
    by blast
  from at_form p have a: "Utils_fetchData env0 ''/process-donation?x=1'' (post_options Map.empty) = Inr form_ack"
    by blast
  with at_form have s: "rs_success form_ack"
    by blast
  show ?thesis
    using at_form at_unknown p m u a s by blast
qed

section \<open>The submit listeners\<close>

text \<open>
  Claim C2. When validation fails (\<open>form.checkValidity()\<close> gives false for the donation and
  the volunteer form, \<open>emailInput.checkValidity()\<close> for the newsletter form), the listener
  makes no call to the gateway, whatever the gateway is, leaves an \<open>error\<close> notice, and
  leaves every control of the form as it was.
\<close>

theorem invalid_submission_makes_no_call:
  "calls (donation_submit gw cl False st) = calls st
   \<and> elements (donation_submit gw cl False st) = elements st
   \<and> feedback (donation_submit gw cl False st) =
       Some \<lparr>nt_type = ''error'', nt_message = (''Por favor, corrija os erros no formul'' @ [CHR 0xE1] @ ''rio.'')\<rparr>
   \<and> calls (volunteer_submit gw False vst) = calls vst
   \<and> elements (volunteer_submit gw False vst) = elements vst
   \<and> feedback (volunteer_submit gw False vst) =
       Some \<lparr>nt_type = ''error'', nt_message = (''Por favor, preencha os campos obrigat'' @ [CHR 0xF3] @ ''rios.'')\<rparr>
   \<and> (find (\<lambda>e. el_inside e \<and> el_id e = ''footer-newsletter-email'') (elements nst) = Some emailInput \<longrightarrow>
        calls (newsletter_submit gw False nst) = calls nst
        \<and> elements (newsletter_submit gw False nst) = elements nst
        \<and> feedback (newsletter_submit gw False nst) =
            Some \<lparr>nt_type = ''error'', nt_message = (''Por favor, insira um email v'' @ [CHR 0xE1] @ ''lido.'')\<rparr>)"
  by (simp add: donation_submit_def volunteer_submit_def newsletter_submit_def
        UI_displayFeedback_def Let_def)

theorem invalid_submission_makes_no_call_witness:
  "find (\<lambda>e. el_inside e \<and> el_id e = ''footer-newsletter-email'') (elements newsletter_form)
     = Some ((html_input ''email'' ''email'' ''ana@example.org'' False False)
               \<lparr>el_id := ''footer-newsletter-email''\<rparr>)
   \<and> calls (newsletter_submit (Utils_fetchData env0) False newsletter_form) = calls newsletter_form
   \<and> elements (newsletter_submit (Utils_fetchData env0) False newsletter_form)
       = elements newsletter_form
   \<and> feedback (newsletter_submit (Utils_fetchData env0) False newsletter_form) =
       Some \<lparr>nt_type = ''error'', nt_message = (''Por favor, insira um email v'' @ [CHR 0xE1] @ ''lido.'')\<rparr>
   \<and> calls (donation_submit (Utils_fetchData env0) (fst (loaded (Some ''money'') (Some ''card'')))
        False (snd (loaded (Some ''money'') (Some ''card''))))
       = calls (snd (loaded (Some ''money'') (Some ''card'')))"
proof -
  have h: "find (\<lambda>e. el_inside e \<and> el_id e = ''footer-newsletter-email'') (elements newsletter_form)
     = Some ((html_input ''email'' ''email'' ''ana@example.org'' False False)
               \<lparr>el_id := ''footer-newsletter-email''\<rparr>)"
    by (simp add: newsletter_form_def html_input_def)
  show ?thesis
    using h invalid_submission_makes_no_call
      [where gw = "Utils_fetchData env0" and nst = newsletter_form
         and emailInput = "(html_input ''email'' ''email'' ''ana@example.org'' False False)
               \<lparr>el_id := ''footer-newsletter-email''\<rparr>"
         and cl = "fst (loaded (Some ''money'') (Some ''card''))"
         and st = "snd (loaded (Some ''money'') (Some ''card''))"
         and vst = "volunteer_form True False True"]
    by blast
qed

text \<open>
  Claim C3 fails on the code. A submission that passes validation disables the submit
  button and replaces its text, and then calls \<open>UI.showLoading\<close> before the \<open>try\<close>
  statement. That call raises a \<open>TypeError\<close> for every control (lemma
  \<open>UI_showLoading_raises\<close>), so the listener ends there: no call reaches the gateway,
  the \<open>finally\<close> block never runs, and the button stays disabled with the busy text. The
  theorem evaluates the three listeners, against the gateway of the application, on a
  donation page, a volunteer form and a newsletter form that are valid.
\<close>

theorem valid_submission_leaves_button_disabled:
  "submitButton (donation_submit (Utils_fetchData env0) (fst (loaded (Some ''money'') (Some ''card'')))
       True (snd (loaded (Some ''money'') (Some ''card''))))
     = Some \<lparr>btn_disabled = True, btn_text = ''Processando...'', btn_loader = None\<rparr>
   \<and> calls (donation_submit (Utils_fetchData env0) (fst (loaded (Some ''money'') (Some ''card'')))
       True (snd (loaded (Some ''money'') (Some ''card'')))) = []
   \<and> uncaught (donation_submit (Utils_fetchData env0) (fst (loaded (Some ''money'') (Some ''card'')))
       True (snd (loaded (Some ''money'') (Some ''card''))))
     = Some (TypeError ''loader.querySelector(.spinner).style'')
   \<and> submitButton (volunteer_submit (Utils_fetchData env0) True (volunteer_form True False True))
     = Some \<lparr>btn_disabled = True, btn_text = ''Enviando...'', btn_loader = None\<rparr>
   \<and> calls (volunteer_submit (Utils_fetchData env0) True (volunteer_form True False True)) = []
   \<and> submitButton (newsletter_submit (Utils_fetchData env0) True newsletter_form)
     = Some \<lparr>btn_disabled = True, btn_text = ''Assinar'', btn_loader = None\<rparr>
   \<and> calls (newsletter_submit (Utils_fetchData env0) True newsletter_form) = []"
  by (simp add: donation_submit_def volunteer_submit_def newsletter_submit_def
        UI_showLoading_raises sample_defs handler_defs volunteer_form_def newsletter_form_def
        get_textContent_def)




section \<open>The theme preference\<close>

lemma toggleTheme_simps:
  "currentTheme (toggleTheme st) = (if currentTheme st = ''light'' then ''dark'' else ''light'')"
  "localStorage (toggleTheme st) =
     (localStorage st)(themeLocalStorageKey \<mapsto> (if currentTheme st = ''light'' then ''dark'' else ''light''))"
  by (simp_all add: toggleTheme_def Let_def UI_updateLiveRegion_def updateThemeToggleButton_def)

text \<open>When \<open>appState.currentTheme\<close> is \<open>light\<close> or \<open>dark\<close> and the stored preference agrees
  with it, two calls of \<open>toggleTheme\<close> bring both back.\<close>

lemma toggleTheme_twice_in_sync:
  assumes "currentTheme st = ''light'' \<or> currentTheme st = ''dark''"
    and "localStorage st themeLocalStorageKey = Some (currentTheme st)"
  shows "currentTheme (toggleTheme (toggleTheme st)) = currentTheme st
    \<and> localStorage (toggleTheme (toggleTheme st)) themeLocalStorageKey = Some (currentTheme st)"
  using assms by (auto simp: toggleTheme_simps)

text \<open>
  Claim C9. Let the stored theme preference be \<open>light\<close> or \<open>dark\<close> when the script starts.
  After two calls of \<open>toggleTheme\<close> the value stored under the theme key is the one the
  script started with.
\<close>

theorem toggleTheme_twice_restores_preference:
  assumes "store themeLocalStorageKey = Some theme"
    and "theme = ''light'' \<or> theme = ''dark''"
  shows "localStorage (toggleTheme (toggleTheme (app_start store classes label))) themeLocalStorageKey
     = Some theme"
proof -
  from assms have "currentTheme (app_start store classes label) = theme"
    by (auto simp: app_start_def initial_theme_def)
  moreover have "localStorage (app_start store classes label) = store"
    by (simp add: app_start_def)
  ultimately show ?thesis
    using assms toggleTheme_twice_in_sync [of "app_start store classes label"] by simp
qed

theorem toggleTheme_twice_restores_preference_witness:
  "[themeLocalStorageKey \<mapsto> ''dark''] themeLocalStorageKey = Some ''dark''
   \<and> localStorage (toggleTheme (toggleTheme
        (app_start [themeLocalStorageKey \<mapsto> ''dark''] [''theme-dark'']
           (Some ''Mudar para Tema Claro'')))) themeLocalStorageKey = Some ''dark''
   \<and> localStorage (toggleTheme
        (app_start [themeLocalStorageKey \<mapsto> ''dark''] [''theme-dark'']
           (Some ''Mudar para Tema Claro''))) themeLocalStorageKey = Some ''light''"
proof -
  have h: "[themeLocalStorageKey \<mapsto> ''dark''] themeLocalStorageKey = Some ''dark''"
    by simp
  have one: "localStorage (toggleTheme
        (app_start [themeLocalStorageKey \<mapsto> ''dark''] [''theme-dark'']
           (Some ''Mudar para Tema Claro''))) themeLocalStorageKey = Some ''light''"
    by (simp add: toggleTheme_simps app_start_def initial_theme_def)
  from toggleTheme_twice_restores_preference
    [of "[themeLocalStorageKey \<mapsto> ''dark'']" "''dark''" "[''theme-dark'']"
        "Some ''Mudar para Tema Claro''"]
  show ?thesis using h one by simp
qed

end
